theory Spec2Isabelle
  imports Complex_Main
begin

section \<open>Expiry classification\<close>

text \<open>
  Dates are day numbers, so that \<open>i.expiration_date - CURRENT_DATE\<close> is the integer
  number of days that PostgreSQL computes for two \<open>DATE\<close> values, and
  \<open>CURRENT_DATE + INTERVAL 'n days'\<close> is \<open>current_date + n\<close>.
\<close>

type_synonym date = int

text \<open>
  ReportController.getExpirationReport, the \<open>CASE\<close> expression that computes
  \<open>urgency_level\<close>.
\<close>

definition report_urgency_level :: "date \<Rightarrow> date \<Rightarrow> string" where
  "report_urgency_level expiration_date current_date =
     (if expiration_date < current_date then ''expired''
      else if expiration_date - current_date \<le> 30 then ''critical''
      else if expiration_date - current_date \<le> 60 then ''warning''
      else ''watch'')"

text \<open>
  ReportController.getExpirationReport, the conditions that the \<open>urgencyLevel\<close>
  filter adds to the \<open>WHERE\<close> clause; an unknown level adds none.
\<close>

definition report_urgency_filter :: "string \<Rightarrow> date \<Rightarrow> date \<Rightarrow> bool" where
  "report_urgency_filter urgencyLevel expiration_date current_date =
     (if urgencyLevel = ''expired'' then expiration_date < current_date
      else if urgencyLevel = ''critical'' then
        expiration_date \<ge> current_date \<and> expiration_date \<le> current_date + 30
      else if urgencyLevel = ''warning'' then
        expiration_date > current_date + 30 \<and> expiration_date \<le> current_date + 60
      else if urgencyLevel = ''watch'' then expiration_date > current_date + 60
      else True)"

text \<open>
  AlertController.generateExpirationAlerts, the \<open>CASE\<close> expression that computes
  \<open>alert_type\<close>; a \<open>CASE\<close> without \<open>ELSE\<close> yields \<open>NULL\<close>, here \<open>None\<close>.
\<close>

definition alert_type :: "date \<Rightarrow> date \<Rightarrow> string option" where
  "alert_type expiration_date current_date =
     (if expiration_date < current_date then Some ''expired''
      else if expiration_date \<le> current_date + 30 then Some ''30_days''
      else if expiration_date \<le> current_date + 60 then Some ''60_days''
      else if expiration_date \<le> current_date + 90 then Some ''90_days''
      else None)"

text \<open>
  AlertController.getAlertStats names the alert types: \<open>expired\<close> counts as
  \<open>expired_alerts\<close>, \<open>30_days\<close> as \<open>critical_alerts\<close>, \<open>60_days\<close> as
  \<open>warning_alerts\<close> and \<open>90_days\<close> as \<open>watch_alerts\<close>.
\<close>

definition alert_tier :: "string \<Rightarrow> string" where
  "alert_tier t =
     (if t = ''expired'' then ''expired''
      else if t = ''30_days'' then ''critical''
      else if t = ''60_days'' then ''warning''
      else if t = ''90_days'' then ''watch''
      else t)"

section \<open>The database\<close>

text \<open>
  The handlers talk to PostgreSQL through SQL text. A table is the list of its rows, a
  \<open>SELECT\<close> is a filter of that list, \<open>rows[0]\<close> is its first element, and an
  \<open>UPDATE ... WHERE\<close> maps over the rows. Only the columns that the modelled handlers
  read or write are kept. Column names carry the alias of their table as a prefix
  (\<open>i.quantity_on_hand\<close> is \<open>i_quantity_on_hand\<close>).

  Amounts of money are rationals. JavaScript computes them in binary64 floating point;
  no property below depends on an amount, they only decide whether a request with
  mismatching payment figures is refused.
\<close>

record product_row =
  p_product_id :: int
  p_product_name :: string
  p_requires_prescription :: bool
  p_tax_rate :: rat
  p_is_active :: bool

record inventory_row =
  i_inventory_id :: int
  i_product_id :: int
  i_supplier_id :: int
  i_batch_number :: string
  i_lot_number :: string
  i_quantity_on_hand :: int
  i_quantity_reserved :: int
  i_unit_cost :: rat
  i_expiration_date :: "date option"
  i_status :: string

record sale_row =
  s_sale_id :: int
  s_subtotal :: rat
  s_tax_amount :: rat
  s_total_amount :: rat
  s_payment_method :: string
  s_payment_status :: string

record sale_item_row =
  si_sale_item_id :: int
  si_sale_id :: int
  si_product_id :: int
  si_inventory_id :: int
  si_quantity :: int
  si_unit_price :: rat
  si_discount_percentage :: rat
  si_discount_amount :: rat
  si_line_total :: rat
  si_expiration_date :: "date option"
  si_batch_number :: string

record stock_movement_row =
  sm_movement_id :: int
  sm_inventory_id :: int
  sm_product_id :: int
  sm_movement_type :: string
  sm_quantity_change :: int
  sm_quantity_before :: int
  sm_quantity_after :: int
  sm_unit_cost :: "rat option"
  sm_reference_id :: "int option"
  sm_reference_type :: "string option"
  sm_reason :: string
  sm_performed_by :: int

record purchase_order_row =
  po_po_id :: int
  po_supplier_id :: int
  po_status :: string

record purchase_order_item_row =
  poi_po_item_id :: int
  poi_po_id :: int
  poi_product_id :: int
  poi_quantity_ordered :: int
  poi_quantity_received :: int
  poi_unit_cost :: rat
  poi_status :: string

record db =
  products :: "product_row list"
  inventory :: "inventory_row list"
  sales :: "sale_row list"
  sale_items :: "sale_item_row list"
  stock_movements :: "stock_movement_row list"
  purchase_orders :: "purchase_order_row list"
  purchase_order_items :: "purchase_order_item_row list"

text \<open>
  Modelled from the spec: the schema is not under src/. \<open>quantity_available\<close> is a
  column that the handlers read and never write; the spec gives it as derived,
  \<open>on_hand - reserved\<close>.
\<close>

definition i_quantity_available :: "inventory_row \<Rightarrow> int" where
  "i_quantity_available i = i_quantity_on_hand i - i_quantity_reserved i"

text \<open>
  Modelled from the spec: the schema is not under src/. Keys are auto-incrementing: a
  new row takes the successor of the largest key of its table.
\<close>

definition fresh_id :: "int list \<Rightarrow> int" where
  "fresh_id ids = foldr max ids 0 + 1"

text \<open>Every failure of a handler, one constructor for each \<open>throw\<close> or error response.\<close>

datatype error =
    ItemsRequired
  | PaymentMethodRequired
  | InvalidPaymentMethod
  | InvalidItem
  | ProductNotFound int
  | PrescriptionRequired string
  | InsufficientInventory string
  | PaymentMismatch
  | SaleNotRefundable
  | SaleItemNotFound int
  | RefundExceedsSold int int
  | RefundAmountMismatch
  | RefundItemsRequired
  | NoItemsToReceive
  | PoItemNotFound int
  | ReceiveMoreThanOrdered int
  | TypeError
  | AdjustmentFieldsRequired
  | ReasonRequired
  | InventoryNotFound
  | NegativeQuantity int int
  | TransferFieldsRequired
  | SameInventory
  | SourceNotFound
  | DestinationNotFound
  | DifferentProducts
  | InsufficientSource int
  | DatabaseError
  | InvalidInventoryId
  | AdjustmentNotNumber

text \<open>
  config/database.js, \<open>transaction\<close>: \<open>BEGIN\<close>, the callback, then \<open>COMMIT\<close>; when the
  callback throws, \<open>ROLLBACK\<close> and the error is thrown again. The callback returns its
  result and the state it has written, or the error.
\<close>

definition transaction :: "(db \<Rightarrow> error + ('a \<times> db)) \<Rightarrow> db \<Rightarrow> (error + 'a) \<times> db" where
  "transaction callback s =
     (case callback s of
        Inl e \<Rightarrow> (Inl e, s)
      | Inr (result, s') \<Rightarrow> (Inr result, s'))"

text \<open>\<open>UPDATE inventory SET ... WHERE inventory_id = $n\<close>.\<close>

definition update_inventory :: "int \<Rightarrow> (inventory_row \<Rightarrow> inventory_row) \<Rightarrow> db \<Rightarrow> db" where
  "update_inventory k f s =
     s\<lparr>inventory := map (\<lambda>i. if i_inventory_id i = k then f i else i) (inventory s)\<rparr>"

text \<open>
  \<open>ORDER BY expiration_date ASC\<close>: PostgreSQL sorts \<open>NULL\<close> last in ascending order.
  The order among equal dates is not fixed by SQL; the model keeps the table's order.
\<close>

definition order_by_expiration_asc :: "inventory_row list \<Rightarrow> inventory_row list" where
  "order_by_expiration_asc rows =
     sort_key (\<lambda>i. the (i_expiration_date i)) [i \<leftarrow> rows. i_expiration_date i \<noteq> None]
     @ [i \<leftarrow> rows. i_expiration_date i = None]"


text \<open>A request value that JavaScript treats as false: absent, or the empty string.\<close>

definition falsy :: "string option \<Rightarrow> bool" where
  "falsy v = (case v of None \<Rightarrow> True | Some t \<Rightarrow> t = [])"

section \<open>SalesController.createSale\<close>

text \<open>
  Request fields are modelled at the types the handler expects: identifiers and
  quantities are integers (\<open>0\<close> is the only false one), \<open>inventoryId\<close> and
  \<open>customerPaymentAmount\<close> may be absent.
\<close>

record sale_item =
  productId :: int
  quantity :: int
  unitPrice :: rat
  discountPercentage :: rat
  inventoryId :: "int option"

record sale_body =
  items :: "sale_item list"
  paymentMethod :: "string option"
  prescriptionNumber :: "string option"
  insuranceClaimAmount :: rat
  customerPaymentAmount :: "rat option"

record processed_item =
  pi_productId :: int
  pi_inventoryId :: int
  pi_quantity :: int
  pi_unitPrice :: rat
  pi_discountPercentage :: rat
  pi_discountAmount :: rat
  pi_lineTotal :: rat
  pi_expirationDate :: "date option"
  pi_batchNumber :: string

record sale_acc =
  acc_db :: db
  subtotal :: rat
  totalTaxAmount :: rat
  processedItems :: "processed_item list"

record sale_result =
  sr_id :: int
  sr_subtotal :: rat
  sr_taxAmount :: rat
  sr_totalAmount :: rat
  sr_itemCount :: nat

definition validPaymentMethods :: "string list" where
  "validPaymentMethods = [''cash'', ''card'', ''insurance'', ''check'', ''digital'']"

text \<open>The query \<open>productQuery\<close>.\<close>

definition productQuery :: "db \<Rightarrow> int \<Rightarrow> product_row list" where
  "productQuery s pid = [p \<leftarrow> products s. p_product_id p = pid \<and> p_is_active p]"

text \<open>
  The conditions that both queries behind \<open>inventoryCheck\<close> share: the batch is
  of the product, active, and its available quantity is at least the whole requested
  quantity.
\<close>

definition covers :: "sale_item \<Rightarrow> inventory_row \<Rightarrow> bool" where
  "covers item i =
     (i_product_id i = productId item \<and> i_status i = ''active''
      \<and> i_quantity_available i \<ge> quantity item)"

text \<open>
  The query behind \<open>inventoryCheck\<close>: the pinned batch when \<open>inventoryId\<close> is given,
  otherwise the first-expiring batch among those that cover the request (\<open>LIMIT 1\<close>).
\<close>

definition inventoryCheck :: "db \<Rightarrow> sale_item \<Rightarrow> inventory_row list" where
  "inventoryCheck s item =
     (case (case inventoryId item of None \<Rightarrow> None
            | Some k \<Rightarrow> if k = 0 then None else Some k) of
        Some k \<Rightarrow> [i \<leftarrow> inventory s. i_inventory_id i = k \<and> covers item i]
      | None \<Rightarrow> take 1 (order_by_expiration_asc [i \<leftarrow> inventory s. covers item i]))"

text \<open>One turn of the first loop, \<open>for (const item of items)\<close>.\<close>

definition process_item :: "string option \<Rightarrow> sale_acc \<Rightarrow> sale_item \<Rightarrow> error + sale_acc" where
  "process_item prescription acc item =
     (if productId item = 0 \<or> quantity item = 0 \<or> quantity item \<le> 0 then Inl InvalidItem
      else case productQuery (acc_db acc) (productId item) of
        [] \<Rightarrow> Inl (ProductNotFound (productId item))
      | product # _ \<Rightarrow>
          if p_requires_prescription product \<and> falsy prescription
          then Inl (PrescriptionRequired (p_product_name product))
          else case inventoryCheck (acc_db acc) item of
            [] \<Rightarrow> Inl (InsufficientInventory (p_product_name product))
          | batch # _ \<Rightarrow>
              let lineSubtotal = unitPrice item * of_int (quantity item);
                  discountAmount = (lineSubtotal * discountPercentage item) / 100;
                  lineTotal = lineSubtotal - discountAmount;
                  lineTaxAmount = (lineTotal * p_tax_rate product) / 100
              in Inr \<lparr>acc_db = update_inventory (i_inventory_id batch)
                          (\<lambda>i. i\<lparr>i_quantity_reserved := i_quantity_reserved i + quantity item\<rparr>)
                          (acc_db acc),
                      subtotal = subtotal acc + lineTotal,
                      totalTaxAmount = totalTaxAmount acc + lineTaxAmount,
                      processedItems = processedItems acc @
                        [\<lparr>pi_productId = productId item,
                          pi_inventoryId = i_inventory_id batch,
                          pi_quantity = quantity item,
                          pi_unitPrice = unitPrice item,
                          pi_discountPercentage = discountPercentage item,
                          pi_discountAmount = discountAmount,
                          pi_lineTotal = lineTotal,
                          pi_expirationDate = i_expiration_date batch,
                          pi_batchNumber = i_batch_number batch\<rparr>]\<rparr>)"

fun process_items :: "string option \<Rightarrow> sale_acc \<Rightarrow> sale_item list \<Rightarrow> error + sale_acc" where
  "process_items prescription acc [] = Inr acc"
| "process_items prescription acc (item # rest) =
     (case process_item prescription acc item of
        Inl e \<Rightarrow> Inl e
      | Inr acc' \<Rightarrow> process_items prescription acc' rest)"

text \<open>
  One turn of the second loop, \<open>for (const item of processedItems)\<close>: the
  \<open>sale_items\<close> row, then the decrement of \<open>quantity_on_hand\<close> and
  \<open>quantity_reserved\<close>. No statement of the loop touches \<open>stock_movements\<close>.
\<close>

definition insert_sale_item :: "int \<Rightarrow> db \<Rightarrow> processed_item \<Rightarrow> db" where
  "insert_sale_item sale_id s item =
     update_inventory (pi_inventoryId item)
       (\<lambda>i. i\<lparr>i_quantity_on_hand := i_quantity_on_hand i - pi_quantity item,
              i_quantity_reserved := i_quantity_reserved i - pi_quantity item\<rparr>)
       (s\<lparr>sale_items := sale_items s @
            [\<lparr>si_sale_item_id = fresh_id (map si_sale_item_id (sale_items s)),
              si_sale_id = sale_id,
              si_product_id = pi_productId item,
              si_inventory_id = pi_inventoryId item,
              si_quantity = pi_quantity item,
              si_unit_price = pi_unitPrice item,
              si_discount_percentage = pi_discountPercentage item,
              si_discount_amount = pi_discountAmount item,
              si_line_total = pi_lineTotal item,
              si_expiration_date = pi_expirationDate item,
              si_batch_number = pi_batchNumber item\<rparr>]\<rparr>)"

text \<open>
  The callback given to \<open>transaction\<close>. The \<open>INSERT INTO sales\<close> leaves
  \<open>payment_status\<close> to the column's default, which is declared in the schema and not
  under src/: it is the parameter \<open>default_status\<close>. With an absent
  \<open>customerPaymentAmount\<close> the sum of the payments is \<open>NaN\<close> and the comparison
  \<open>> 0.01\<close> is false.
\<close>

definition createSale_callback :: "string \<Rightarrow> sale_body \<Rightarrow> db \<Rightarrow> error + (sale_result \<times> db)" where
  "createSale_callback default_status body s =
     (case process_items (prescriptionNumber body)
             \<lparr>acc_db = s, subtotal = 0, totalTaxAmount = 0, processedItems = []\<rparr>
             (items body) of
        Inl e \<Rightarrow> Inl e
      | Inr acc \<Rightarrow>
          let totalAmount = subtotal acc + totalTaxAmount acc in
          if (case customerPaymentAmount body of
                None \<Rightarrow> False
              | Some paid \<Rightarrow> \<bar>(insuranceClaimAmount body + paid) - totalAmount\<bar> > 1 / 100)
          then Inl PaymentMismatch
          else
            let sale = \<lparr>s_sale_id = fresh_id (map s_sale_id (sales (acc_db acc))),
                        s_subtotal = subtotal acc,
                        s_tax_amount = totalTaxAmount acc,
                        s_total_amount = totalAmount,
                        s_payment_method = the (paymentMethod body),
                        s_payment_status = default_status\<rparr>;
                s1 = (acc_db acc)\<lparr>sales := sales (acc_db acc) @ [sale]\<rparr>;
                s2 = foldl (insert_sale_item (s_sale_id sale)) s1 (processedItems acc)
            in Inr (\<lparr>sr_id = s_sale_id sale,
                      sr_subtotal = subtotal acc,
                      sr_taxAmount = totalTaxAmount acc,
                      sr_totalAmount = totalAmount,
                      sr_itemCount = length (processedItems acc)\<rparr>, s2))"

definition createSale :: "string \<Rightarrow> db \<Rightarrow> sale_body \<Rightarrow> (error + sale_result) \<times> db" where
  "createSale default_status s body =
     (if items body = [] then (Inl ItemsRequired, s)
      else if falsy (paymentMethod body) then (Inl PaymentMethodRequired, s)
      else if the (paymentMethod body) \<notin> set validPaymentMethods
        then (Inl InvalidPaymentMethod, s)
      else transaction (createSale_callback default_status body) s)"

section \<open>SalesController.processRefund\<close>

record refund_item =
  saleItemId :: int
  quantityToRefund :: int

record refund_acc =
  racc_db :: db
  totalRefundAmount :: rat

record refund_result =
  rr_saleId :: int
  rr_refundAmount :: rat
  rr_newPaymentStatus :: string

text \<open>The query \<open>saleQuery\<close>: only a sale whose status is \<open>completed\<close> is found.\<close>

definition saleQuery :: "db \<Rightarrow> int \<Rightarrow> sale_row list" where
  "saleQuery s saleId =
     [r \<leftarrow> sales s. s_sale_id r = saleId \<and> s_payment_status r = ''completed'']"

text \<open>The query \<open>itemQuery\<close>, a join of \<open>sale_items\<close> with \<open>products\<close>.\<close>

definition itemQuery :: "db \<Rightarrow> int \<Rightarrow> int \<Rightarrow> sale_item_row list" where
  "itemQuery s k saleId =
     [si. si \<leftarrow> sale_items s, p \<leftarrow> products s, si_product_id si = p_product_id p,
          si_sale_item_id si = k \<and> si_sale_id si = saleId]"

text \<open>\<open>INSERT INTO stock_movements\<close>: the row takes the next \<open>movement_id\<close>.\<close>

definition insert_stock_movement :: "stock_movement_row \<Rightarrow> db \<Rightarrow> db" where
  "insert_stock_movement m s =
     s\<lparr>stock_movements := stock_movements s @
         [m\<lparr>sm_movement_id := fresh_id (map sm_movement_id (stock_movements s))\<rparr>]\<rparr>"

text \<open>
  One turn of the loop \<open>for (const refundItem of items)\<close>. The requested quantity is
  compared with the quantity of the sale line as it was sold; nothing records what has
  been refunded before. The refund amount of a line divides by the sold quantity; for a
  line sold with quantity \<open>0\<close> JavaScript yields \<open>NaN\<close> or an infinity where the
  rationals give \<open>0\<close>, and createSale writes no such line. The movement is written by \<open>INSERT ... SELECT ... FROM inventory i
  WHERE i.inventory_id = $1\<close>, one row for each inventory row found, after the update.
\<close>

definition refund_one ::
  "int \<Rightarrow> string option \<Rightarrow> int \<Rightarrow> refund_acc \<Rightarrow> refund_item \<Rightarrow> error + refund_acc" where
  "refund_one saleId reason processedBy acc refundItem =
     (case itemQuery (racc_db acc) (saleItemId refundItem) saleId of
        [] \<Rightarrow> Inl (SaleItemNotFound (saleItemId refundItem))
      | item # _ \<Rightarrow>
          if quantityToRefund refundItem > si_quantity item
          then Inl (RefundExceedsSold (quantityToRefund refundItem) (si_quantity item))
          else
            let itemRefundAmount =
                  (si_line_total item / of_int (si_quantity item))
                    * of_int (quantityToRefund refundItem);
                s1 = update_inventory (si_inventory_id item)
                       (\<lambda>i. i\<lparr>i_quantity_on_hand :=
                                 i_quantity_on_hand i + quantityToRefund refundItem\<rparr>)
                       (racc_db acc);
                s2 = fold (\<lambda>i. insert_stock_movement
                             \<lparr>sm_movement_id = 0,
                              sm_inventory_id = si_inventory_id item,
                              sm_product_id = si_product_id item,
                              sm_movement_type = ''return'',
                              sm_quantity_change = quantityToRefund refundItem,
                              sm_quantity_before =
                                i_quantity_on_hand i - quantityToRefund refundItem,
                              sm_quantity_after = i_quantity_on_hand i,
                              sm_unit_cost = None,
                              sm_reference_id = Some saleId,
                              sm_reference_type = Some ''sale_refund'',
                              sm_reason = (if falsy reason then ''Sale refund'' else the reason),
                              sm_performed_by = processedBy\<rparr>)
                       [i \<leftarrow> inventory s1. i_inventory_id i = si_inventory_id item] s1
            in Inr \<lparr>racc_db = s2,
                    totalRefundAmount = totalRefundAmount acc + itemRefundAmount\<rparr>)"

fun refund_items ::
  "int \<Rightarrow> string option \<Rightarrow> int \<Rightarrow> refund_acc \<Rightarrow> refund_item list \<Rightarrow> error + refund_acc" where
  "refund_items saleId reason processedBy acc [] = Inr acc"
| "refund_items saleId reason processedBy acc (refundItem # rest) =
     (case refund_one saleId reason processedBy acc refundItem of
        Inl e \<Rightarrow> Inl e
      | Inr acc' \<Rightarrow> refund_items saleId reason processedBy acc' rest)"

text \<open>
  The callback given to \<open>transaction\<close>. A \<open>refundAmount\<close> that is absent or \<open>0\<close> is
  false in \<open>refundAmount && ...\<close> and in \<open>refundAmount || totalRefundAmount\<close>.
\<close>

definition processRefund_callback ::
  "int \<Rightarrow> refund_item list \<Rightarrow> string option \<Rightarrow> rat option \<Rightarrow> int \<Rightarrow> db
     \<Rightarrow> error + (refund_result \<times> db)" where
  "processRefund_callback saleId refundItems reason refundAmount processedBy s =
     (case saleQuery s saleId of
        [] \<Rightarrow> Inl SaleNotRefundable
      | sale # _ \<Rightarrow>
          (case refund_items saleId reason processedBy
                  \<lparr>racc_db = s, totalRefundAmount = 0\<rparr> refundItems of
             Inl e \<Rightarrow> Inl e
           | Inr acc \<Rightarrow>
               let given = (case refundAmount of None \<Rightarrow> None
                            | Some a \<Rightarrow> if a = 0 then None else Some a) in
               if (case given of None \<Rightarrow> False
                   | Some a \<Rightarrow> \<bar>a - totalRefundAmount acc\<bar> > 1 / 100)
               then Inl RefundAmountMismatch
               else
                 let finalRefundAmount =
                       (case given of None \<Rightarrow> totalRefundAmount acc | Some a \<Rightarrow> a);
                     newPaymentStatus =
                       (if finalRefundAmount \<ge> s_total_amount sale
                        then ''refunded'' else ''partial'');
                     s1 = (racc_db acc)
                       \<lparr>sales := map (\<lambda>r. if s_sale_id r = saleId
                                           then r\<lparr>s_payment_status := newPaymentStatus\<rparr>
                                           else r)
                                      (sales (racc_db acc))\<rparr>
                 in Inr (\<lparr>rr_saleId = saleId,
                           rr_refundAmount = finalRefundAmount,
                           rr_newPaymentStatus = newPaymentStatus\<rparr>, s1)))"

definition processRefund ::
  "db \<Rightarrow> int \<Rightarrow> refund_item list \<Rightarrow> string option \<Rightarrow> rat option \<Rightarrow> int
     \<Rightarrow> (error + refund_result) \<times> db" where
  "processRefund s saleId refundItems reason refundAmount processedBy =
     (if refundItems = [] then (Inl RefundItemsRequired, s)
      else transaction
             (processRefund_callback saleId refundItems reason refundAmount processedBy) s)"

section \<open>PurchaseOrderController.receiveGoods\<close>

record receive_item =
  ri_po_item_id :: int
  ri_quantity_received :: int
  ri_batch_number :: string
  ri_expiration_date :: "date option"
  ri_lot_number :: string

text \<open>The query \<open>poItemQuery\<close>, a join of \<open>purchase_order_items\<close> with \<open>products\<close>.\<close>

definition poItemQuery :: "db \<Rightarrow> int \<Rightarrow> int \<Rightarrow> purchase_order_item_row list" where
  "poItemQuery s k po =
     [poi. poi \<leftarrow> purchase_order_items s, p \<leftarrow> products s,
           poi_product_id poi = p_product_id p,
           poi_po_item_id poi = k \<and> poi_po_id poi = po]"

text \<open>
  One turn of the loop \<open>for (const item of items)\<close>. The \<open>INSERT INTO inventory\<close> is
  unconditional: no statement looks for a batch with the same number and expiration.
  The supplier is read from \<open>rows[0]\<close> of the purchase order, which throws a
  \<open>TypeError\<close> when the order is missing. \<open>quantity_reserved\<close> is not in the column
  list and takes the column's default, \<open>0\<close>. No statement touches \<open>stock_movements\<close>.
\<close>

definition receive_one :: "int \<Rightarrow> db \<Rightarrow> receive_item \<Rightarrow> error + db" where
  "receive_one po s item =
     (case poItemQuery s (ri_po_item_id item) po of
        [] \<Rightarrow> Inl (PoItemNotFound (ri_po_item_id item))
      | poItem # _ \<Rightarrow>
          let newQuantityReceived = poi_quantity_received poItem + ri_quantity_received item in
          if newQuantityReceived > poi_quantity_ordered poItem
          then Inl (ReceiveMoreThanOrdered (ri_po_item_id item))
          else
            let newStatus = (if newQuantityReceived = poi_quantity_ordered poItem
                             then ''received'' else ''partially_received'');
                s1 = s\<lparr>purchase_order_items :=
                         map (\<lambda>r. if poi_po_item_id r = ri_po_item_id item
                                   then r\<lparr>poi_quantity_received := newQuantityReceived,
                                          poi_status := newStatus\<rparr>
                                   else r)
                             (purchase_order_items s)\<rparr>
            in case [r \<leftarrow> purchase_orders s1. po_po_id r = po] of
                 [] \<Rightarrow> Inl TypeError
               | order # _ \<Rightarrow>
                   Inr (s1\<lparr>inventory := inventory s1 @
                          [\<lparr>i_inventory_id = fresh_id (map i_inventory_id (inventory s1)),
                            i_product_id = poi_product_id poItem,
                            i_supplier_id = po_supplier_id order,
                            i_batch_number = ri_batch_number item,
                            i_lot_number = ri_lot_number item,
                            i_quantity_on_hand = ri_quantity_received item,
                            i_quantity_reserved = 0,
                            i_unit_cost = poi_unit_cost poItem,
                            i_expiration_date = ri_expiration_date item,
                            i_status = ''active''\<rparr>]\<rparr>))"

fun receive_items :: "int \<Rightarrow> db \<Rightarrow> receive_item list \<Rightarrow> error + db" where
  "receive_items po s [] = Inr s"
| "receive_items po s (item # rest) =
     (case receive_one po s item of
        Inl e \<Rightarrow> Inl e
      | Inr s' \<Rightarrow> receive_items po s' rest)"

text \<open>The callback given to \<open>transaction\<close>; it returns \<open>poResult.rows[0]\<close>.\<close>

definition receiveGoods_callback ::
  "int \<Rightarrow> receive_item list \<Rightarrow> db \<Rightarrow> error + (purchase_order_row option \<times> db)" where
  "receiveGoods_callback po receiveItems s =
     (case receive_items po s receiveItems of
        Inl e \<Rightarrow> Inl e
      | Inr s1 \<Rightarrow>
          let rows = [r \<leftarrow> purchase_order_items s1. poi_po_id r = po];
              total_items = length rows;
              received_items = length [r \<leftarrow> rows. poi_status r = ''received''];
              partial_items = length [r \<leftarrow> rows. poi_status r = ''partially_received''];
              poStatus = (if received_items = total_items then ''received''
                          else if partial_items > 0 \<or> received_items > 0
                            then ''partially_received''
                          else ''ordered'');
              s2 = s1\<lparr>purchase_orders :=
                        map (\<lambda>r. if po_po_id r = po then r\<lparr>po_status := poStatus\<rparr> else r)
                            (purchase_orders s1)\<rparr>
          in Inr (case [r \<leftarrow> purchase_orders s2. po_po_id r = po] of
                    [] \<Rightarrow> None | r # _ \<Rightarrow> Some r, s2))"

definition receiveGoods ::
  "db \<Rightarrow> int \<Rightarrow> receive_item list \<Rightarrow> (error + purchase_order_row option) \<times> db" where
  "receiveGoods s po receiveItems =
     (if receiveItems = [] then (Inl NoItemsToReceive, s)
      else transaction (receiveGoods_callback po receiveItems) s)"

section \<open>StockMovementController.createAdjustment and createTransfer\<close>

text \<open>The class StockMovementController is the second half of controllers/AuthController.js.\<close>

text \<open>
  \<open>String.prototype.trim\<close> on the white space of ASCII: space, tab, line feed,
  vertical tab, form feed and carriage return.
\<close>

definition is_space :: "char \<Rightarrow> bool" where
  "is_space c = (c \<in> {CHR '' '', CHR 0x09, CHR 0x0A, CHR 0x0B, CHR 0x0C, CHR 0x0D})"

definition trim :: "string \<Rightarrow> string" where
  "trim t = rev (dropWhile is_space (rev (dropWhile is_space t)))"

text \<open>\<open>!reason || reason.trim().length === 0\<close>.\<close>

definition reason_missing :: "string option \<Rightarrow> bool" where
  "reason_missing reason = (falsy reason \<or> length (trim (the reason)) = 0)"

text \<open>
  The query \<open>inventoryQuery\<close> of createAdjustment, also \<open>fromInventoryQuery\<close> and
  \<open>toInventoryQuery\<close> of createTransfer: the active inventory row, joined with its
  product.
\<close>

definition inventoryQuery :: "db \<Rightarrow> int \<Rightarrow> inventory_row list" where
  "inventoryQuery s k =
     [i. i \<leftarrow> inventory s, p \<leftarrow> products s, i_product_id i = p_product_id p,
         i_inventory_id i = k \<and> i_status i = ''active'']"

text \<open>
  createAdjustment. Identifiers and quantities are integers, on which \<open>parseInt\<close> is
  the identity; an absent \<open>adjustmentType\<close> is \<open>adjustment\<close>, a \<open>unitCost\<close> that is
  absent or \<open>0\<close> gives way to the cost of the batch. The result is the movement row.
\<close>

definition createAdjustment_callback ::
  "int \<Rightarrow> string \<Rightarrow> int \<Rightarrow> string \<Rightarrow> rat option \<Rightarrow> int \<Rightarrow> db
     \<Rightarrow> error + (stock_movement_row \<times> db)" where
  "createAdjustment_callback k adjustmentType quantityChange reason unitCost userId s =
     (case inventoryQuery s k of
        [] \<Rightarrow> Inl InventoryNotFound
      | batch # _ \<Rightarrow>
          let quantityBefore = i_quantity_on_hand batch;
              quantityAfter = quantityBefore + quantityChange in
          if quantityAfter < 0 then Inl (NegativeQuantity \<bar>quantityChange\<bar> quantityBefore)
          else
            let s1 = update_inventory k (\<lambda>i. i\<lparr>i_quantity_on_hand := quantityAfter\<rparr>) s;
                s2 = insert_stock_movement
                       \<lparr>sm_movement_id = 0,
                        sm_inventory_id = k,
                        sm_product_id = i_product_id batch,
                        sm_movement_type = adjustmentType,
                        sm_quantity_change = quantityChange,
                        sm_quantity_before = quantityBefore,
                        sm_quantity_after = quantityAfter,
                        sm_unit_cost =
                          Some (case unitCost of None \<Rightarrow> i_unit_cost batch
                                | Some c \<Rightarrow> if c = 0 then i_unit_cost batch else c),
                        sm_reference_id = None,
                        sm_reference_type = None,
                        sm_reason = trim reason,
                        sm_performed_by = userId\<rparr> s1
            in Inr (last (stock_movements s2), s2))"

definition createAdjustment ::
  "db \<Rightarrow> int \<Rightarrow> string option \<Rightarrow> int \<Rightarrow> string option \<Rightarrow> rat option \<Rightarrow> int
     \<Rightarrow> (error + stock_movement_row) \<times> db" where
  "createAdjustment s k adjustmentType quantityChange reason unitCost userId =
     (if k = 0 \<or> quantityChange = 0 \<or> quantityChange = 0 then (Inl AdjustmentFieldsRequired, s)
      else if reason_missing reason then (Inl ReasonRequired, s)
      else transaction
             (createAdjustment_callback k
                (case adjustmentType of None \<Rightarrow> ''adjustment'' | Some a \<Rightarrow> a)
                quantityChange (the reason) unitCost userId) s)"

text \<open>
  The identifiers of a transfer, as the request body carries them: a JSON number or a
  JSON string. The handler compares the two raw values with \<open>===\<close>, which holds
  for two numbers or two strings that are the same and never for a number and a
  string. The quantity is a JSON number that is an integer, on which \<open>parseInt\<close> is
  the identity.
\<close>

datatype js_value = JNumber int | JString string

text \<open>\<open>!v\<close>: the number \<open>0\<close> and the empty string are false.\<close>

definition js_falsy :: "js_value \<Rightarrow> bool" where
  "js_falsy v = (case v of JNumber n \<Rightarrow> n = 0 | JString t \<Rightarrow> t = [])"

text \<open>
  The queries receive the raw value as parameter. node-postgres sends a parameter as
  text, a number by its decimal digits and a string as it is, and PostgreSQL reads the text
  compared with the integer column \<open>inventory_id\<close> as an integer: white space around it
  is skipped, a sign may come first, then at least one decimal digit and nothing but
  decimal digits. Any other text makes the query fail. The range of the column and the
  hexadecimal, octal and binary notations that PostgreSQL accepts from version 16 on are
  left out: only decimal texts are used below.
\<close>

definition digit_of :: "char \<Rightarrow> nat option" where
  "digit_of c =
     map_of [(CHR ''0'', 0), (CHR ''1'', 1), (CHR ''2'', 2), (CHR ''3'', 3), (CHR ''4'', 4),
             (CHR ''5'', 5), (CHR ''6'', 6), (CHR ''7'', 7), (CHR ''8'', 8), (CHR ''9'', 9)] c"

fun digits_of :: "nat \<Rightarrow> string \<Rightarrow> nat option" where
  "digits_of n [] = Some n"
| "digits_of n (c # cs) =
     (case digit_of c of None \<Rightarrow> None | Some d \<Rightarrow> digits_of (10 * n + d) cs)"

definition unsigned_of :: "string \<Rightarrow> nat option" where
  "unsigned_of t = (if t = [] then None else digits_of 0 t)"

definition integer_of_text :: "string \<Rightarrow> int option" where
  "integer_of_text t =
     (case trim t of
        [] \<Rightarrow> None
      | c # cs \<Rightarrow>
          if c = CHR ''-'' then map_option (\<lambda>n. - int n) (unsigned_of cs)
          else if c = CHR ''+'' then map_option int (unsigned_of cs)
          else map_option int (unsigned_of (c # cs)))"

definition pg_integer :: "js_value \<Rightarrow> int option" where
  "pg_integer v = (case v of JNumber n \<Rightarrow> Some n | JString t \<Rightarrow> integer_of_text t)"

text \<open>
  createTransfer. Both rows are read before either is written, and each update stores
  the quantity computed from what was read. Every statement names its row by the raw
  identifier of the request, which PostgreSQL reads as an integer. The result is the
  pair of movement rows, outbound first.
\<close>

definition createTransfer_callback ::
  "js_value \<Rightarrow> js_value \<Rightarrow> int \<Rightarrow> string \<Rightarrow> int \<Rightarrow> db
     \<Rightarrow> error + ((stock_movement_row \<times> stock_movement_row) \<times> db)" where
  "createTransfer_callback fromInventoryId toInventoryId transferQuantity reason userId s =
     (case pg_integer fromInventoryId of
        None \<Rightarrow> Inl DatabaseError
      | Some fromId \<Rightarrow>
     (case inventoryQuery s fromId of
        [] \<Rightarrow> Inl SourceNotFound
      | fromInventory # _ \<Rightarrow>
     (case pg_integer toInventoryId of
        None \<Rightarrow> Inl DatabaseError
      | Some toId \<Rightarrow>
     (case inventoryQuery s toId of
        [] \<Rightarrow> Inl DestinationNotFound
      | toInventory # _ \<Rightarrow>
          if i_product_id fromInventory \<noteq> i_product_id toInventory
          then Inl DifferentProducts
          else
            let fromQuantityBefore = i_quantity_on_hand fromInventory;
                toQuantityBefore = i_quantity_on_hand toInventory in
            if fromQuantityBefore < transferQuantity
            then Inl (InsufficientSource fromQuantityBefore)
            else
              let fromQuantityAfter = fromQuantityBefore - transferQuantity;
                  toQuantityAfter = toQuantityBefore + transferQuantity;
                  s1 = update_inventory fromId
                         (\<lambda>i. i\<lparr>i_quantity_on_hand := fromQuantityAfter\<rparr>) s;
                  s2 = update_inventory toId
                         (\<lambda>i. i\<lparr>i_quantity_on_hand := toQuantityAfter\<rparr>) s1;
                  s3 = insert_stock_movement
                         \<lparr>sm_movement_id = 0,
                          sm_inventory_id = fromId,
                          sm_product_id = i_product_id fromInventory,
                          sm_movement_type = ''transfer'',
                          sm_quantity_change = - transferQuantity,
                          sm_quantity_before = fromQuantityBefore,
                          sm_quantity_after = fromQuantityAfter,
                          sm_unit_cost = Some (i_unit_cost fromInventory),
                          sm_reference_id = Some toId,
                          sm_reference_type = Some ''transfer_out'',
                          sm_reason = ''Transfer out: '' @ trim reason,
                          sm_performed_by = userId\<rparr> s2;
                  s4 = insert_stock_movement
                         \<lparr>sm_movement_id = 0,
                          sm_inventory_id = toId,
                          sm_product_id = i_product_id toInventory,
                          sm_movement_type = ''transfer'',
                          sm_quantity_change = transferQuantity,
                          sm_quantity_before = toQuantityBefore,
                          sm_quantity_after = toQuantityAfter,
                          sm_unit_cost = Some (i_unit_cost toInventory),
                          sm_reference_id = Some fromId,
                          sm_reference_type = Some ''transfer_in'',
                          sm_reason = ''Transfer in: '' @ trim reason,
                          sm_performed_by = userId\<rparr> s3
              in Inr ((last (stock_movements s3), last (stock_movements s4)), s4)))))"

text \<open>
  The checks before the transaction. \<open>fromInventoryId === toInventoryId\<close> is taken on
  the raw values, before anything reads them as integers.
\<close>

definition createTransfer ::
  "db \<Rightarrow> js_value \<Rightarrow> js_value \<Rightarrow> int \<Rightarrow> string option \<Rightarrow> int
     \<Rightarrow> (error + (stock_movement_row \<times> stock_movement_row)) \<times> db" where
  "createTransfer s fromInventoryId toInventoryId transferQuantity reason userId =
     (if js_falsy fromInventoryId \<or> js_falsy toInventoryId
           \<or> transferQuantity = 0 \<or> transferQuantity \<le> 0
        then (Inl TransferFieldsRequired, s)
      else if fromInventoryId = toInventoryId then (Inl SameInventory, s)
      else if reason_missing reason then (Inl ReasonRequired, s)
      else transaction
             (createTransfer_callback fromInventoryId toInventoryId transferQuantity
                (the reason) userId) s)"

section \<open>InventoryController.inventoryAdjustment\<close>

text \<open>
  The handler works through the model class \<open>Inventory\<close>, which is not under src/:
  \<open>Inventory.findById\<close> and \<open>Inventory.updateQuantity\<close> are parameters, over a store
  of any type. \<open>parseInt(id)\<close> is given as parsed, \<open>None\<close> for \<open>NaN\<close>; an
  \<open>adjustment_quantity\<close> that is not a number is \<open>None\<close>.
\<close>

record adjustment_response =
  updatedInventory :: inventory_row
  adjustment_made :: int
  previous_quantity :: int

definition inventoryAdjustment ::
  "('st \<Rightarrow> int \<Rightarrow> inventory_row option)
     \<Rightarrow> ('st \<Rightarrow> int \<Rightarrow> int \<Rightarrow> string \<Rightarrow> (error + inventory_row) \<times> 'st)
     \<Rightarrow> 'st \<Rightarrow> int option \<Rightarrow> int option \<Rightarrow> string option
     \<Rightarrow> (error + adjustment_response) \<times> 'st" where
  "inventoryAdjustment findById updateQuantity st parsedId adjustment_quantity reason =
     (case parsedId of
        None \<Rightarrow> (Inl InvalidInventoryId, st)
      | Some k \<Rightarrow>
          if k = 0 \<or> k \<le> 0 then (Inl InvalidInventoryId, st)
          else case adjustment_quantity of
            None \<Rightarrow> (Inl AdjustmentNotNumber, st)
          | Some delta \<Rightarrow>
              if reason_missing reason then (Inl ReasonRequired, st)
              else case findById st k of
                None \<Rightarrow> (Inl InventoryNotFound, st)
              | Some currentInventory \<Rightarrow>
                  let newQuantity = max 0 (i_quantity_on_hand currentInventory + delta) in
                  case updateQuantity st k newQuantity (the reason) of
                    (Inl e, st') \<Rightarrow> (Inl e, st')
                  | (Inr updated, st') \<Rightarrow>
                      (Inr \<lparr>updatedInventory = updated,
                            adjustment_made = delta,
                            previous_quantity = i_quantity_on_hand currentInventory\<rparr>, st'))"

text \<open>
  What a received item leaves in \<open>inventory\<close>: a row with the item's batch number,
  lot number and expiration, the received quantity on hand, and status \<open>active\<close>.
\<close>

definition new_batch_of :: "receive_item \<Rightarrow> inventory_row \<Rightarrow> bool" where
  "new_batch_of item i =
     (i_batch_number i = ri_batch_number item \<and> i_lot_number i = ri_lot_number item
      \<and> i_expiration_date i = ri_expiration_date item
      \<and> i_quantity_on_hand i = ri_quantity_received item
      \<and> i_status i = ''active'')"

section \<open>Keys and example data\<close>

text \<open>
  The constraints that the schema puts on a state: \<open>inventory_id\<close> is the primary key
  of \<open>inventory\<close>, and the \<open>sale_id\<close> of a \<open>sale_items\<close> row refers to a row of
  \<open>sales\<close>.
\<close>

definition keys_ok :: "db \<Rightarrow> bool" where
  "keys_ok s =
     (distinct (map i_inventory_id (inventory s))
      \<and> (\<forall>si \<in> set (sale_items s). si_sale_id si \<in> set (map s_sale_id (sales s))))"

text \<open>\<open>SELECT quantity_on_hand FROM inventory WHERE inventory_id = k\<close>, first row.\<close>

definition quantity_on_hand_of :: "db \<Rightarrow> int \<Rightarrow> int option" where
  "quantity_on_hand_of s k =
     map_option i_quantity_on_hand (find (\<lambda>i. i_inventory_id i = k) (inventory s))"

text \<open>
  The scenario of the specification: product P with batch X (10 on hand, expires
  2024-01-01, day 0) and batch Y (10 on hand, expires 2024-06-01, day 152).
\<close>

definition product_P :: product_row where
  "product_P = \<lparr>p_product_id = 1, p_product_name = ''P'', p_requires_prescription = False,
     p_tax_rate = 0, p_is_active = True\<rparr>"

definition batch_X :: inventory_row where
  "batch_X = \<lparr>i_inventory_id = 1, i_product_id = 1, i_supplier_id = 1,
     i_batch_number = ''X'', i_lot_number = ''L'', i_quantity_on_hand = 10,
     i_quantity_reserved = 0, i_unit_cost = 1, i_expiration_date = Some 0,
     i_status = ''active''\<rparr>"

definition batch_Y :: inventory_row where
  "batch_Y = \<lparr>i_inventory_id = 2, i_product_id = 1, i_supplier_id = 1,
     i_batch_number = ''Y'', i_lot_number = ''L'', i_quantity_on_hand = 10,
     i_quantity_reserved = 0, i_unit_cost = 1, i_expiration_date = Some 152,
     i_status = ''active''\<rparr>"

definition pharmacy :: db where
  "pharmacy = \<lparr>products = [product_P], inventory = [batch_X, batch_Y], sales = [],
     sale_items = [], stock_movements = [],
     purchase_orders = [\<lparr>po_po_id = 1, po_supplier_id = 1, po_status = ''ordered''\<rparr>],
     purchase_order_items =
       [\<lparr>poi_po_item_id = 1, poi_po_id = 1, poi_product_id = 1, poi_quantity_ordered = 20,
         poi_quantity_received = 0, poi_unit_cost = 1, poi_status = ''ordered''\<rparr>]\<rparr>"

text \<open>A second product Q, and the state in which batch Y is a batch of Q.\<close>

definition product_Q :: product_row where
  "product_Q = \<lparr>p_product_id = 2, p_product_name = ''Q'', p_requires_prescription = False,
     p_tax_rate = 0, p_is_active = True\<rparr>"

definition pharmacy_PQ :: db where
  "pharmacy_PQ = pharmacy\<lparr>products := [product_P, product_Q],
     inventory := [batch_X, batch_Y\<lparr>i_product_id := 2\<rparr>]\<rparr>"

text \<open>A sale line of \<open>q\<close> units of P at 2 each with no pinned batch, and a cash sale of such lines, paid exactly.\<close>

definition line_of :: "int \<Rightarrow> sale_item" where
  "line_of q = \<lparr>productId = 1, quantity = q, unitPrice = 2, discountPercentage = 0,
     inventoryId = None\<rparr>"

definition sale_of :: "int list \<Rightarrow> sale_body" where
  "sale_of qs = \<lparr>items = map line_of qs, paymentMethod = Some ''cash'',
     prescriptionNumber = None, insuranceClaimAmount = 0,
     customerPaymentAmount = Some (2 * of_int (sum_list qs))\<rparr>"

text \<open>A delivery of 5 units with the batch number, lot number and expiration of batch X.\<close>

definition delivery :: receive_item where
  "delivery = \<lparr>ri_po_item_id = 1, ri_quantity_received = 5, ri_batch_number = ''X'',
     ri_expiration_date = Some 0, ri_lot_number = ''L''\<rparr>"

text \<open>The state after the sale of 5 units, and after the full refund of that sale line.\<close>

definition pharmacy_sold :: db where
  "pharmacy_sold = snd (createSale ''completed'' pharmacy (sale_of [5]))"

definition pharmacy_refunded :: db where
  "pharmacy_refunded =
     snd (processRefund pharmacy_sold 1 [\<lparr>saleItemId = 1, quantityToRefund = 5\<rparr>] None None 7)"

section \<open>Properties of the expiry classification\<close>

text \<open>
  Claim C9. For a batch whose expiration date lies within the 90-day horizon, the report
  assigns \<open>expired\<close> exactly when the expiration date is before today, \<open>critical\<close>
  exactly when the days to expiry are between 0 and 30, \<open>warning\<close> exactly when they
  are between 31 and 60, and \<open>watch\<close> otherwise; the report's \<open>urgencyLevel\<close> filter
  selects exactly the rows of that tier, and the alert generator assigns the alert type
  that names the same tier.
\<close>

theorem expiry_tiers_consistent:
  assumes "expiration_date \<le> current_date + 90"
  shows "(report_urgency_level expiration_date current_date = ''expired''
            \<longleftrightarrow> expiration_date < current_date)
       \<and> (report_urgency_level expiration_date current_date = ''critical''
            \<longleftrightarrow> 0 \<le> expiration_date - current_date \<and> expiration_date - current_date \<le> 30)
       \<and> (report_urgency_level expiration_date current_date = ''warning''
            \<longleftrightarrow> 31 \<le> expiration_date - current_date \<and> expiration_date - current_date \<le> 60)
       \<and> (report_urgency_level expiration_date current_date = ''watch''
            \<longleftrightarrow> 60 < expiration_date - current_date)
       \<and> report_urgency_filter (report_urgency_level expiration_date current_date)
            expiration_date current_date
       \<and> map_option alert_tier (alert_type expiration_date current_date)
            = Some (report_urgency_level expiration_date current_date)"
  using assms
  by (simp add: report_urgency_level_def report_urgency_filter_def alert_type_def
      alert_tier_def)

theorem expiry_tiers_consistent_witness:
  "(45::int) \<le> 0 + 90
   \<and> report_urgency_level 45 0 = ''warning''
   \<and> report_urgency_filter ''warning'' 45 0
   \<and> map_option alert_tier (alert_type 45 0) = Some ''warning''"
proof -
  have h: "(45::int) \<le> 0 + 90" by simp
  have w: "report_urgency_level 45 0 = ''warning''"
    by (simp add: report_urgency_level_def)
  show ?thesis
    using expiry_tiers_consistent [OF h] w by simp
qed

section \<open>Allocation of a sale line\<close>

lemma fresh_id_gt: "k \<in> set ids \<Longrightarrow> k < fresh_id ids"
  unfolding fresh_id_def by (induction ids) auto

lemma order_by_expiration_asc_set [simp]: "set (order_by_expiration_asc rows) = set rows"
  unfolding order_by_expiration_asc_def by auto

lemma order_by_expiration_asc_Nil [simp]: "order_by_expiration_asc rows = [] \<longleftrightarrow> rows = []"
  using order_by_expiration_asc_set [of rows] by (metis set_empty)




lemmas ex_defs = product_P_def batch_X_def batch_Y_def pharmacy_def line_of_def sale_of_def
lemmas sale_defs = createSale_def createSale_callback_def transaction_def process_item_def productQuery_def inventoryCheck_def
    order_by_expiration_asc_def falsy_def validPaymentMethods_def i_quantity_available_def covers_def
    update_inventory_def insert_sale_item_def fresh_id_def Let_def





section \<open>Failure and the movement log\<close>

lemma update_inventory_fields [simp]:
  "products (update_inventory k f s) = products s"
  "sales (update_inventory k f s) = sales s"
  "sale_items (update_inventory k f s) = sale_items s"
  "stock_movements (update_inventory k f s) = stock_movements s"
  "purchase_orders (update_inventory k f s) = purchase_orders s"
  "purchase_order_items (update_inventory k f s) = purchase_order_items s"
  "inventory (update_inventory k f s)
     = map (\<lambda>i. if i_inventory_id i = k then f i else i) (inventory s)"
  by (simp_all add: update_inventory_def)

lemma insert_stock_movement_fields [simp]:
  "products (insert_stock_movement m s) = products s"
  "sales (insert_stock_movement m s) = sales s"
  "sale_items (insert_stock_movement m s) = sale_items s"
  "inventory (insert_stock_movement m s) = inventory s"
  "purchase_orders (insert_stock_movement m s) = purchase_orders s"
  "purchase_order_items (insert_stock_movement m s) = purchase_order_items s"
  by (simp_all add: insert_stock_movement_def)

lemma process_item_movements:
  "process_item prescription acc item = Inr acc'
     \<Longrightarrow> stock_movements (acc_db acc') = stock_movements (acc_db acc)"
  by (auto simp: process_item_def Let_def split: if_splits list.splits)

lemma process_items_movements:
  "process_items prescription acc its = Inr acc'
     \<Longrightarrow> stock_movements (acc_db acc') = stock_movements (acc_db acc)"
proof (induction its arbitrary: acc)
  case Nil then show ?case by simp
next
  case (Cons item rest)
  then show ?case
    by (auto split: sum.splits dest: process_item_movements)
qed

lemma insert_sale_item_movements [simp]:
  "stock_movements (insert_sale_item k s p) = stock_movements s"
  by (simp add: insert_sale_item_def)

lemma foldl_insert_sale_item_movements [simp]:
  "stock_movements (foldl (insert_sale_item k) s ps) = stock_movements s"
  by (induction ps arbitrary: s) simp_all

lemma createSale_movements:
  "stock_movements (snd (createSale d s body)) = stock_movements s"
  by (auto simp: createSale_def createSale_callback_def transaction_def Let_def
      split: sum.splits dest: process_items_movements)

lemma receive_one_movements:
  "receive_one po s item = Inr s' \<Longrightarrow> stock_movements s' = stock_movements s"
  by (auto simp: receive_one_def Let_def split: if_splits list.splits)

lemma receive_items_movements:
  "receive_items po s its = Inr s' \<Longrightarrow> stock_movements s' = stock_movements s"
proof (induction its arbitrary: s)
  case Nil then show ?case by simp
next
  case (Cons item rest)
  then show ?case by (auto split: sum.splits dest: receive_one_movements)
qed

lemma receiveGoods_movements:
  "stock_movements (snd (receiveGoods s po its)) = stock_movements s"
  by (auto simp: receiveGoods_def receiveGoods_callback_def transaction_def Let_def
      split: sum.splits dest: receive_items_movements)

lemmas refund_defs = processRefund_def processRefund_callback_def refund_one_def saleQuery_def
  itemQuery_def insert_stock_movement_def
lemmas receive_defs = receiveGoods_def receiveGoods_callback_def receive_one_def poItemQuery_def

text \<open>
  Claim C4. A sale, refund, receipt, adjustment or transfer that fails leaves the state
  exactly as it was: no batch quantity has changed and no movement has been written. In
  particular the reservations that a sale made for its earlier lines are gone when a
  later line fails. The handler inventoryAdjustment writes through
  \<open>Inventory.updateQuantity\<close> only: when it fails, the store is as it was, provided
  that a failing \<open>updateQuantity\<close> leaves the store as it was.
\<close>

theorem failed_operation_persists_nothing:
  "(createSale d s body = (Inl e, s') \<longrightarrow> s' = s)
   \<and> (processRefund s saleId refundItems reason refundAmount processedBy = (Inl e, s') \<longrightarrow> s' = s)
   \<and> (receiveGoods s po receiveItems = (Inl e, s') \<longrightarrow> s' = s)
   \<and> (createAdjustment s k adjustmentType quantityChange reason unitCost userId = (Inl e, s')
        \<longrightarrow> s' = s)
   \<and> (createTransfer s fromInventoryId toInventoryId transferQuantity reason userId = (Inl e, s')
        \<longrightarrow> s' = s)
   \<and> ((\<forall>j n t x st1. updateQuantity st j n t = (Inl x, st1) \<longrightarrow> st1 = st) \<longrightarrow>
        inventoryAdjustment findById updateQuantity st parsedId adjustment_quantity reason
          = (Inl e, st') \<longrightarrow> st' = st)"
proof (intro conjI impI)
  assume "createSale d s body = (Inl e, s')"
  then show "s' = s"
    by (auto simp: createSale_def transaction_def split: if_splits sum.splits prod.splits)
next
  assume "processRefund s saleId refundItems reason refundAmount processedBy = (Inl e, s')"
  then show "s' = s"
    by (auto simp: processRefund_def transaction_def split: if_splits sum.splits prod.splits)
next
  assume "receiveGoods s po receiveItems = (Inl e, s')"
  then show "s' = s"
    by (auto simp: receiveGoods_def transaction_def split: if_splits sum.splits prod.splits)
next
  assume "createAdjustment s k adjustmentType quantityChange reason unitCost userId = (Inl e, s')"
  then show "s' = s"
    by (auto simp: createAdjustment_def transaction_def split: if_splits sum.splits prod.splits)
next
  assume "createTransfer s fromInventoryId toInventoryId transferQuantity reason userId
            = (Inl e, s')"
  then show "s' = s"
    by (auto simp: createTransfer_def transaction_def split: if_splits sum.splits prod.splits)
next
  assume atomic: "\<forall>j n t x st1. updateQuantity st j n t = (Inl x, st1) \<longrightarrow> st1 = st"
    and failed: "inventoryAdjustment findById updateQuantity st parsedId adjustment_quantity reason
                   = (Inl e, st')"
  show "st' = st"
  proof (cases "\<exists>j n t x. updateQuantity st j n t = (Inl x, st')")
    case True
    with atomic show ?thesis by blast
  next
    case False
    with failed show ?thesis
      by (auto simp: inventoryAdjustment_def Let_def
          split: option.splits if_splits prod.splits sum.splits)
  qed
qed

text \<open>
  A sale of two lines: the first reserves 6 units of X, the second asks for 15 units
  that no batch covers. The sale fails and the state is the one before it. An adjustment
  of a batch that does not exist fails and the store, a list of batches, is as it was.
\<close>

theorem failed_operation_persists_nothing_witness:
  "(\<exists>acc. process_items None
        \<lparr>acc_db = pharmacy, subtotal = 0, totalTaxAmount = 0, processedItems = []\<rparr>
        [line_of 6] = Inr acc
      \<and> map i_quantity_reserved (inventory (acc_db acc)) = [6, 0])
   \<and> createSale ''completed'' pharmacy (sale_of [6, 15])
       = (Inl (InsufficientInventory ''P''), pharmacy)
   \<and> inventoryAdjustment
         (\<lambda>st k. find (\<lambda>i. i_inventory_id i = k) st)
         (\<lambda>st k q r. (Inr (batch_X\<lparr>i_quantity_on_hand := q\<rparr>),
                       map (\<lambda>i. if i_inventory_id i = k then i\<lparr>i_quantity_on_hand := q\<rparr> else i) st))
         [batch_X] (Some 9) (Some (- 5)) (Some ''damaged'')
       = (Inl InventoryNotFound, [batch_X])"
proof -
  let ?find = "\<lambda>(st::inventory_row list) k. find (\<lambda>i. i_inventory_id i = k) st"
  let ?update = "\<lambda>(st::inventory_row list) k q (r::string).
                   (Inr (batch_X\<lparr>i_quantity_on_hand := q\<rparr>) :: error + inventory_row,
                    map (\<lambda>i. if i_inventory_id i = k then i\<lparr>i_quantity_on_hand := q\<rparr> else i) st)"
  obtain r s' where c: "createSale ''completed'' pharmacy (sale_of [6, 15]) = (r, s')"
    by (cases "createSale ''completed'' pharmacy (sale_of [6, 15])")
  then have "r = fst (createSale ''completed'' pharmacy (sale_of [6, 15]))" by simp
  also have "\<dots> = Inl (InsufficientInventory ''P'')"
    by (simp add: ex_defs sale_defs)
  finally have r: "r = Inl (InsufficientInventory ''P'')" .
  obtain a st' where i: "inventoryAdjustment ?find ?update [batch_X] (Some 9) (Some (- 5))
                           (Some ''damaged'') = (a, st')"
    by (cases "inventoryAdjustment ?find ?update [batch_X] (Some 9) (Some (- 5))
                 (Some ''damaged'')")
  then have "a = fst (inventoryAdjustment ?find ?update [batch_X] (Some 9) (Some (- 5))
                        (Some ''damaged''))" by simp
  also have "\<dots> = Inl InventoryNotFound"
    by (simp add: inventoryAdjustment_def reason_missing_def falsy_def trim_def is_space_def
        ex_defs)
  finally have a: "a = Inl InventoryNotFound" .
  have u: "\<forall>j n t x st1. ?update [batch_X] j n t = (Inl x, st1) \<longrightarrow> st1 = [batch_X]"
    by simp
  note t = failed_operation_persists_nothing
    [where d = "''completed''" and s = pharmacy and body = "sale_of [6, 15]" and s' = s'
       and updateQuantity = ?update and findById = ?find and st = "[batch_X]" and st' = st'
       and parsedId = "Some 9" and adjustment_quantity = "Some (- 5)"
       and reason = "Some ''damaged''"]
  from t [where e = "InsufficientInventory ''P''", THEN conjunct1] c r
  have "s' = pharmacy" by simp
  moreover from t [where e = InventoryNotFound] i a u
  have "st' = [batch_X]" by blast
  moreover have "\<exists>acc. process_items None
        \<lparr>acc_db = pharmacy, subtotal = 0, totalTaxAmount = 0, processedItems = []\<rparr>
        [line_of 6] = Inr acc
      \<and> map i_quantity_reserved (inventory (acc_db acc)) = [6, 0]"
    by (simp add: ex_defs sale_defs)
  ultimately show ?thesis using c r i a by simp
qed

text \<open>
  Claim C3. Every committed change of \<open>quantity_on_hand\<close> is paired with one movement
  record. The code does this for refunds, adjustments and transfers. A sale and a
  receipt never write to \<open>stock_movements\<close>: the sale of 5 units takes batch X from
  10 to 5, the delivery of 5 units adds a batch of 5, and the log stays empty.
\<close>

theorem sale_and_receipt_write_no_movement:
  "stock_movements (snd (createSale d s body)) = stock_movements s
   \<and> stock_movements (snd (receiveGoods s po receiveItems)) = stock_movements s
   \<and> fst (createSale ''completed'' pharmacy (sale_of [5]))
       = Inr \<lparr>sr_id = 1, sr_subtotal = 10, sr_taxAmount = 0, sr_totalAmount = 10, sr_itemCount = 1\<rparr>
   \<and> map i_quantity_on_hand (inventory pharmacy) = [10, 10]
   \<and> map i_quantity_on_hand (inventory pharmacy_sold) = [5, 10]
   \<and> stock_movements pharmacy_sold = []
   \<and> map i_quantity_on_hand (inventory (snd (receiveGoods pharmacy 1 [delivery]))) = [10, 10, 5]
   \<and> stock_movements (snd (receiveGoods pharmacy 1 [delivery])) = []"
proof (intro conjI)
  show "stock_movements (snd (createSale d s body)) = stock_movements s"
    by (rule createSale_movements)
  show "stock_movements (snd (receiveGoods s po receiveItems)) = stock_movements s"
    by (rule receiveGoods_movements)
  show "fst (createSale ''completed'' pharmacy (sale_of [5]))
       = Inr \<lparr>sr_id = 1, sr_subtotal = 10, sr_taxAmount = 0, sr_totalAmount = 10, sr_itemCount = 1\<rparr>"
    by (simp add: ex_defs sale_defs)
  show "map i_quantity_on_hand (inventory pharmacy) = [10, 10]"
    by (simp add: ex_defs)
  show "map i_quantity_on_hand (inventory pharmacy_sold) = [5, 10]"
    by (simp add: pharmacy_sold_def ex_defs sale_defs)
  show "stock_movements pharmacy_sold = []"
    by (simp add: pharmacy_sold_def ex_defs sale_defs)
  show "map i_quantity_on_hand (inventory (snd (receiveGoods pharmacy 1 [delivery]))) = [10, 10, 5]"
    by (simp add: ex_defs delivery_def receive_defs transaction_def fresh_id_def Let_def)
  show "stock_movements (snd (receiveGoods pharmacy 1 [delivery])) = []"
    by (simp add: ex_defs delivery_def receive_defs transaction_def fresh_id_def Let_def)
qed


section \<open>Goods receipt\<close>

lemma receive_one_inventory:
  "receive_one po s item = Inr s'
     \<Longrightarrow> \<exists>i. inventory s' = inventory s @ [i] \<and> new_batch_of item i"
  by (auto simp: receive_one_def new_batch_of_def Let_def split: if_splits list.splits)

lemma receive_items_inventory:
  "receive_items po s its = Inr s'
     \<Longrightarrow> \<exists>new. inventory s' = inventory s @ new \<and> list_all2 new_batch_of its new"
proof (induction its arbitrary: s)
  case Nil then show ?case by simp
next
  case (Cons item rest)
  from Cons.prems obtain s1 where one: "receive_one po s item = Inr s1"
    and more: "receive_items po s1 rest = Inr s'"
    by (auto split: sum.splits)
  from receive_one_inventory [OF one] obtain i
    where i: "inventory s1 = inventory s @ [i]" "new_batch_of item i" by blast
  from Cons.IH [OF more] obtain new
    where new: "inventory s' = inventory s1 @ new" "list_all2 new_batch_of rest new" by blast
  from i new have "inventory s' = inventory s @ (i # new) \<and> list_all2 new_batch_of (item # rest) (i # new)"
    by simp
  then show ?case by blast
qed

text \<open>
  Claim C6, as amended. A goods receipt that succeeds leaves every existing batch as it
  was and appends one new batch for each received item, holding the received quantity,
  whether or not a batch with the same number, lot and expiration exists.
\<close>

theorem receipt_always_creates_batch:
  assumes "receiveGoods s po receiveItems = (Inr r, s')"
  shows "\<exists>new. inventory s' = inventory s @ new \<and> list_all2 new_batch_of receiveItems new"
  using assms
  by (auto simp: receiveGoods_def receiveGoods_callback_def transaction_def Let_def
      split: if_splits sum.splits dest: receive_items_inventory)

theorem receipt_always_creates_batch_witness:
  "\<exists>r s'. receiveGoods pharmacy 1 [delivery] = (Inr r, s')
      \<and> (\<exists>i. inventory s' = inventory pharmacy @ [i] \<and> new_batch_of delivery i)"
proof -
  obtain r s' where c: "receiveGoods pharmacy 1 [delivery] = (r, s')"
    by (cases "receiveGoods pharmacy 1 [delivery]")
  then have "r = fst (receiveGoods pharmacy 1 [delivery])" by simp
  also have "\<dots> = Inr (Some \<lparr>po_po_id = 1, po_supplier_id = 1, po_status = ''partially_received''\<rparr>)"
    by (simp add: ex_defs delivery_def receive_defs transaction_def fresh_id_def Let_def)
  finally obtain r' where r: "r = Inr r'" by blast
  from receipt_always_creates_batch [OF c [unfolded r]]
  obtain new where new: "inventory s' = inventory pharmacy @ new" "list_all2 new_batch_of [delivery] new"
    by blast
  from new(2) obtain i where "new = [i]" "new_batch_of delivery i"
    by (auto simp: list_all2_Cons1)
  with new(1) c r show ?thesis by auto
qed
text \<open>
  The delivery carries the batch number, lot number and expiration of batch X. Batch X
  keeps its 10 units and a third batch with 5 units appears, where the claim has batch X
  grow to 15.
\<close>

theorem receipt_matching_batch_counterexample:
  "i_batch_number batch_X = ri_batch_number delivery
   \<and> i_lot_number batch_X = ri_lot_number delivery
   \<and> i_expiration_date batch_X = ri_expiration_date delivery
   \<and> inventory pharmacy = [batch_X, batch_Y]
   \<and> fst (receiveGoods pharmacy 1 [delivery])
       = Inr (Some \<lparr>po_po_id = 1, po_supplier_id = 1, po_status = ''partially_received''\<rparr>)
   \<and> inventory (snd (receiveGoods pharmacy 1 [delivery]))
       = [batch_X, batch_Y, batch_X\<lparr>i_inventory_id := 3, i_quantity_on_hand := 5\<rparr>]"
  by (simp add: ex_defs delivery_def receive_defs transaction_def fresh_id_def Let_def)


section \<open>Transfer\<close>

lemmas transfer_defs = createTransfer_def createTransfer_callback_def createAdjustment_def
  createAdjustment_callback_def inventoryQuery_def reason_missing_def trim_def is_space_def
  insert_stock_movement_def

lemmas pg_defs = pg_integer_def integer_of_text_def unsigned_of_def digit_of_def js_falsy_def

lemma find_by_key:
  "distinct (map f xs) \<Longrightarrow> x \<in> set xs \<Longrightarrow> find (\<lambda>i. f i = f x) xs = Some x"
  by (induction xs) (auto simp: image_iff)

lemma inventoryQuery_member:
  "inventoryQuery s k = b # rest \<Longrightarrow> b \<in> set (inventory s) \<and> i_inventory_id b = k"
proof -
  assume "inventoryQuery s k = b # rest"
  then have "b \<in> set (inventoryQuery s k)" by simp
  then show ?thesis by (auto simp: inventoryQuery_def)
qed

lemma quantity_on_hand_of_found:
  "distinct (map i_inventory_id (inventory s)) \<Longrightarrow> inventoryQuery s k = b # rest
     \<Longrightarrow> quantity_on_hand_of s k = Some (i_quantity_on_hand b)"
  using find_by_key [of i_inventory_id "inventory s" b] inventoryQuery_member [of s k b rest]
  by (simp add: quantity_on_hand_of_def)

lemma find_set_on_hand:
  "map_option i_quantity_on_hand
     (find (\<lambda>i. i_inventory_id i = k)
        (map (\<lambda>i. if i_inventory_id i = j then i\<lparr>i_quantity_on_hand := c\<rparr> else i) xs))
   = (if k = j then map_option (\<lambda>_. c) (find (\<lambda>i. i_inventory_id i = k) xs)
      else map_option i_quantity_on_hand (find (\<lambda>i. i_inventory_id i = k) xs))"
  by (induction xs) auto

lemma quantity_on_hand_of_update:
  "quantity_on_hand_of (update_inventory j (\<lambda>i. i\<lparr>i_quantity_on_hand := c\<rparr>) s) k
   = (if k = j then map_option (\<lambda>_. c) (quantity_on_hand_of s k) else quantity_on_hand_of s k)"
  by (simp add: quantity_on_hand_of_def find_set_on_hand option.map_comp comp_def)

lemma quantity_on_hand_of_insert_movement [simp]:
  "quantity_on_hand_of (insert_stock_movement m s) k = quantity_on_hand_of s k"
  by (simp add: quantity_on_hand_of_def)

text \<open>What the callback has done when it returns: the rows it read and the state it left.\<close>

lemma createTransfer_callback_Inr:
  assumes "createTransfer_callback a b q reason uid s = Inr ((out, inn), s')"
  shows "\<exists>ka kb f fr t tr.
           pg_integer a = Some ka \<and> pg_integer b = Some kb
           \<and> inventoryQuery s ka = f # fr \<and> inventoryQuery s kb = t # tr
           \<and> stock_movements s' = stock_movements s @ [out, inn]
           \<and> inventory s'
               = inventory (update_inventory kb (\<lambda>i. i\<lparr>i_quantity_on_hand := i_quantity_on_hand t + q\<rparr>)
                   (update_inventory ka (\<lambda>i. i\<lparr>i_quantity_on_hand := i_quantity_on_hand f - q\<rparr>) s))
           \<and> sm_movement_type out = ''transfer'' \<and> sm_inventory_id out = ka
           \<and> sm_quantity_change out = - q \<and> sm_reference_id out = Some kb
           \<and> sm_reference_type out = Some ''transfer_out''
           \<and> sm_movement_type inn = ''transfer'' \<and> sm_inventory_id inn = kb
           \<and> sm_quantity_change inn = q \<and> sm_reference_id inn = Some ka
           \<and> sm_reference_type inn = Some ''transfer_in''"
proof -
  from assms obtain ka where ka: "pg_integer a = Some ka"
    by (cases "pg_integer a") (simp_all add: createTransfer_callback_def)
  from assms ka obtain f fr where f: "inventoryQuery s ka = f # fr"
    by (cases "inventoryQuery s ka") (simp_all add: createTransfer_callback_def)
  from assms ka f obtain kb where kb: "pg_integer b = Some kb"
    by (cases "pg_integer b") (simp_all add: createTransfer_callback_def)
  from assms ka f kb obtain t tr where t: "inventoryQuery s kb = t # tr"
    by (cases "inventoryQuery s kb") (simp_all add: createTransfer_callback_def)
  from assms ka f kb t
  have "stock_movements s' = stock_movements s @ [out, inn]
      \<and> inventory s'
          = inventory (update_inventory kb (\<lambda>i. i\<lparr>i_quantity_on_hand := i_quantity_on_hand t + q\<rparr>)
              (update_inventory ka (\<lambda>i. i\<lparr>i_quantity_on_hand := i_quantity_on_hand f - q\<rparr>) s))
      \<and> sm_movement_type out = ''transfer'' \<and> sm_inventory_id out = ka
      \<and> sm_quantity_change out = - q \<and> sm_reference_id out = Some kb
      \<and> sm_reference_type out = Some ''transfer_out''
      \<and> sm_movement_type inn = ''transfer'' \<and> sm_inventory_id inn = kb
      \<and> sm_quantity_change inn = q \<and> sm_reference_id inn = Some ka
      \<and> sm_reference_type inn = Some ''transfer_in''"
    by (auto simp: createTransfer_callback_def Let_def insert_stock_movement_def
        split: if_splits)
  with ka kb f t show ?thesis by blast
qed

lemma quantity_on_hand_of_cong:
  "inventory s' = inventory s \<Longrightarrow> quantity_on_hand_of s' k = quantity_on_hand_of s k"
  by (simp add: quantity_on_hand_of_def)


lemma createTransfer_callback_products:
  assumes d: "distinct (map i_inventory_id (inventory s))"
    and ia: "ia \<in> set (inventory s)" "pg_integer a = Some (i_inventory_id ia)"
    and ib: "ib \<in> set (inventory s)" "pg_integer b = Some (i_inventory_id ib)"
    and p: "i_product_id ia \<noteq> i_product_id ib"
  shows "\<exists>e. createTransfer_callback a b q reason uid s = Inl e"
proof (cases "inventoryQuery s (i_inventory_id ia)")
  case Nil with ia(2) show ?thesis by (simp add: createTransfer_callback_def)
next
  case f: (Cons f fr)
  show ?thesis
  proof (cases "inventoryQuery s (i_inventory_id ib)")
    case Nil with f ia(2) ib(2) show ?thesis by (simp add: createTransfer_callback_def)
  next
    case t: (Cons t tr)
    have "f = ia" using inventoryQuery_member [OF f] ia(1) d by (auto simp: distinct_map inj_on_def)
    moreover have "t = ib" using inventoryQuery_member [OF t] ib(1) d by (auto simp: distinct_map inj_on_def)
    ultimately show ?thesis using f t p ia(2) ib(2) by (simp add: createTransfer_callback_def)
  qed
qed

text \<open>
  Claim C7. A transfer of \<open>q\<close> units that goes through between two different rows
  takes \<open>q\<close> from the quantity on hand of the source and adds \<open>q\<close> to that of the
  destination, so that their sum is conserved, and appends two movements of type
  \<open>transfer\<close> that refer to each other's batch: \<open>transfer_out\<close> with \<open>-q\<close>, then
  \<open>transfer_in\<close> with \<open>+q\<close>. A transfer between batches of different products is
  rejected and the state is unchanged, and so is a transfer whose two identifiers are the
  same value. A same-batch transfer is not always rejected: when the two identifiers
  are different values that PostgreSQL reads as the same integer, the number \<open>1\<close> and
  the string \<open>1\<close> for one, the check lets them pass, both queries read the one row, the
  second update overwrites the first, and the batch ends with \<open>q\<close> units more than it
  had.
\<close>

theorem transfer_conserves_unless_same_row:
  assumes "distinct (map i_inventory_id (inventory s))"
  shows "(\<forall>out inn s'. createTransfer s a b q reason uid = (Inr (out, inn), s') \<longrightarrow>
            (\<exists>ka kb ha hb.
               pg_integer a = Some ka \<and> pg_integer b = Some kb
               \<and> quantity_on_hand_of s ka = Some ha \<and> quantity_on_hand_of s kb = Some hb
               \<and> (if ka = kb then quantity_on_hand_of s' ka = Some (ha + q)
                   else (\<exists>ha' hb'. quantity_on_hand_of s' ka = Some ha'
                           \<and> quantity_on_hand_of s' kb = Some hb'
                           \<and> ha' = ha - q \<and> hb' = hb + q \<and> ha' + hb' = ha + hb))
               \<and> stock_movements s' = stock_movements s @ [out, inn]
               \<and> sm_movement_type out = ''transfer'' \<and> sm_inventory_id out = ka
               \<and> sm_quantity_change out = - q \<and> sm_reference_id out = Some kb
               \<and> sm_reference_type out = Some ''transfer_out''
               \<and> sm_movement_type inn = ''transfer'' \<and> sm_inventory_id inn = kb
               \<and> sm_quantity_change inn = q \<and> sm_reference_id inn = Some ka
               \<and> sm_reference_type inn = Some ''transfer_in''))
       \<and> (a = b \<or> (\<exists>ia \<in> set (inventory s). \<exists>ib \<in> set (inventory s).
                       pg_integer a = Some (i_inventory_id ia)
                       \<and> pg_integer b = Some (i_inventory_id ib)
                       \<and> i_product_id ia \<noteq> i_product_id ib)
            \<longrightarrow> (\<exists>e. createTransfer s a b q reason uid = (Inl e, s)))
       \<and> (a \<noteq> b \<and> \<not> js_falsy a \<and> \<not> js_falsy b \<and> 0 < q \<and> \<not> reason_missing reason
            \<and> pg_integer a = Some k \<and> pg_integer b = Some k
            \<and> inventoryQuery s k = row # rest \<and> q \<le> i_quantity_on_hand row
            \<longrightarrow> (\<exists>out inn s'. createTransfer s a b q reason uid = (Inr (out, inn), s')
                   \<and> quantity_on_hand_of s k = Some (i_quantity_on_hand row)
                   \<and> quantity_on_hand_of s' k = Some (i_quantity_on_hand row + q)))"
proof (intro conjI allI impI)
  fix out inn s'
  assume ok: "createTransfer s a b q reason uid = (Inr (out, inn), s')"
  then have cb: "createTransfer_callback a b q (the reason) uid s = Inr ((out, inn), s')"
    by (auto simp: createTransfer_def transaction_def split: if_splits sum.splits)
  from createTransfer_callback_Inr [OF cb] obtain ka kb f fr t tr where
    ka: "pg_integer a = Some ka" and kb: "pg_integer b = Some kb"
    and f: "inventoryQuery s ka = f # fr" and t: "inventoryQuery s kb = t # tr"
    and log: "stock_movements s' = stock_movements s @ [out, inn]"
    and inv: "inventory s'
               = inventory (update_inventory kb (\<lambda>i. i\<lparr>i_quantity_on_hand := i_quantity_on_hand t + q\<rparr>)
                   (update_inventory ka (\<lambda>i. i\<lparr>i_quantity_on_hand := i_quantity_on_hand f - q\<rparr>) s))"
    and rows: "sm_movement_type out = ''transfer'' \<and> sm_inventory_id out = ka
           \<and> sm_quantity_change out = - q \<and> sm_reference_id out = Some kb
           \<and> sm_reference_type out = Some ''transfer_out''
           \<and> sm_movement_type inn = ''transfer'' \<and> sm_inventory_id inn = kb
           \<and> sm_quantity_change inn = q \<and> sm_reference_id inn = Some ka
           \<and> sm_reference_type inn = Some ''transfer_in''"
    by blast
  note ha = quantity_on_hand_of_found [OF assms f] and hb = quantity_on_hand_of_found [OF assms t]
  have after: "quantity_on_hand_of s' j
        = quantity_on_hand_of
            (update_inventory kb (\<lambda>i. i\<lparr>i_quantity_on_hand := i_quantity_on_hand t + q\<rparr>)
               (update_inventory ka (\<lambda>i. i\<lparr>i_quantity_on_hand := i_quantity_on_hand f - q\<rparr>) s)) j"
    for j by (rule quantity_on_hand_of_cong [OF inv])
  have amounts: "if ka = kb then quantity_on_hand_of s' ka = Some (i_quantity_on_hand f + q)
        else (\<exists>ha' hb'. quantity_on_hand_of s' ka = Some ha'
                           \<and> quantity_on_hand_of s' kb = Some hb'
                           \<and> ha' = i_quantity_on_hand f - q \<and> hb' = i_quantity_on_hand t + q
                           \<and> ha' + hb' = i_quantity_on_hand f + i_quantity_on_hand t)"
  proof (cases "ka = kb")
    case True
    with f t have "t = f" by simp
    with True ha show ?thesis by (simp add: after quantity_on_hand_of_update)
  next
    case False
    with ha hb show ?thesis by (simp add: after quantity_on_hand_of_update)
  qed
  from ka kb ha hb amounts log rows
  show "\<exists>ka kb ha hb.
               pg_integer a = Some ka \<and> pg_integer b = Some kb
               \<and> quantity_on_hand_of s ka = Some ha \<and> quantity_on_hand_of s kb = Some hb
               \<and> (if ka = kb then quantity_on_hand_of s' ka = Some (ha + q)
                   else (\<exists>ha' hb'. quantity_on_hand_of s' ka = Some ha'
                           \<and> quantity_on_hand_of s' kb = Some hb'
                           \<and> ha' = ha - q \<and> hb' = hb + q \<and> ha' + hb' = ha + hb))
               \<and> stock_movements s' = stock_movements s @ [out, inn]
               \<and> sm_movement_type out = ''transfer'' \<and> sm_inventory_id out = ka
               \<and> sm_quantity_change out = - q \<and> sm_reference_id out = Some kb
               \<and> sm_reference_type out = Some ''transfer_out''
               \<and> sm_movement_type inn = ''transfer'' \<and> sm_inventory_id inn = kb
               \<and> sm_quantity_change inn = q \<and> sm_reference_id inn = Some ka
               \<and> sm_reference_type inn = Some ''transfer_in''"
    by (intro exI [of _ ka] exI [of _ kb] exI [of _ "i_quantity_on_hand f"]
        exI [of _ "i_quantity_on_hand t"]) simp
next
  assume "a = b \<or> (\<exists>ia \<in> set (inventory s). \<exists>ib \<in> set (inventory s).
                       pg_integer a = Some (i_inventory_id ia)
                       \<and> pg_integer b = Some (i_inventory_id ib)
                       \<and> i_product_id ia \<noteq> i_product_id ib)"
  then show "\<exists>e. createTransfer s a b q reason uid = (Inl e, s)"
  proof
    assume "a = b" then show ?thesis by (simp add: createTransfer_def)
  next
    assume "\<exists>ia \<in> set (inventory s). \<exists>ib \<in> set (inventory s).
                       pg_integer a = Some (i_inventory_id ia)
                       \<and> pg_integer b = Some (i_inventory_id ib)
                       \<and> i_product_id ia \<noteq> i_product_id ib"
    then obtain e where "createTransfer_callback a b q (the reason) uid s = Inl e"
      using createTransfer_callback_products [OF assms] by blast
    then show ?thesis by (simp add: createTransfer_def transaction_def)
  qed
next
  assume h: "a \<noteq> b \<and> \<not> js_falsy a \<and> \<not> js_falsy b \<and> 0 < q \<and> \<not> reason_missing reason
            \<and> pg_integer a = Some k \<and> pg_integer b = Some k
            \<and> inventoryQuery s k = row # rest \<and> q \<le> i_quantity_on_hand row"
  then have "\<exists>r s'. createTransfer_callback a b q (the reason) uid s = Inr (r, s')"
    by (simp add: createTransfer_callback_def Let_def)
  then obtain out inn s' where
    cb: "createTransfer_callback a b q (the reason) uid s = Inr ((out, inn), s')"
    by (metis surj_pair)
  with h have ok: "createTransfer s a b q reason uid = (Inr (out, inn), s')"
    by (simp add: createTransfer_def transaction_def)
  from createTransfer_callback_Inr [OF cb] h obtain f fr t tr where
    f: "inventoryQuery s k = f # fr" and t: "inventoryQuery s k = t # tr"
    and inv: "inventory s'
               = inventory (update_inventory k (\<lambda>i. i\<lparr>i_quantity_on_hand := i_quantity_on_hand t + q\<rparr>)
                   (update_inventory k (\<lambda>i. i\<lparr>i_quantity_on_hand := i_quantity_on_hand f - q\<rparr>) s))"
    by auto
  from h f t have "f = row" "t = row" by simp_all
  with inv have inv': "inventory s'
               = inventory (update_inventory k (\<lambda>i. i\<lparr>i_quantity_on_hand := i_quantity_on_hand row + q\<rparr>)
                   (update_inventory k (\<lambda>i. i\<lparr>i_quantity_on_hand := i_quantity_on_hand row - q\<rparr>) s))"
    by simp
  from h have before: "quantity_on_hand_of s k = Some (i_quantity_on_hand row)"
    using quantity_on_hand_of_found [OF assms, of k row rest] by simp
  have "quantity_on_hand_of s' k = Some (i_quantity_on_hand row + q)"
    using before by (simp add: quantity_on_hand_of_cong [OF inv'] quantity_on_hand_of_update)
  with ok before
  show "\<exists>out inn s'. createTransfer s a b q reason uid = (Inr (out, inn), s')
                   \<and> quantity_on_hand_of s k = Some (i_quantity_on_hand row)
                   \<and> quantity_on_hand_of s' k = Some (i_quantity_on_hand row + q)"
    by blast
qed



text \<open>
  Three units from batch X to batch Y: X goes from 10 to 7, Y from 10 to 13. From X to
  X with the identifier \<open>1\<close> twice, and from X to a batch of product Q: rejected.
  From X to X with the identifiers \<open>1\<close> and \<open>"1"\<close>: accepted, and X goes from 10
  to 13.
\<close>

theorem transfer_conserves_unless_same_row_witness:
  "distinct (map i_inventory_id (inventory pharmacy))
   \<and> quantity_on_hand_of pharmacy 1 = Some 10 \<and> quantity_on_hand_of pharmacy 2 = Some 10
   \<and> (\<exists>out inn s'. createTransfer pharmacy (JNumber 1) (JNumber 2) 3 (Some ''move'') 7
                      = (Inr (out, inn), s')
         \<and> quantity_on_hand_of s' 1 = Some 7 \<and> quantity_on_hand_of s' 2 = Some 13
         \<and> stock_movements s' = [out, inn]
         \<and> sm_movement_type out = ''transfer'' \<and> sm_reference_type out = Some ''transfer_out''
         \<and> sm_movement_type inn = ''transfer'' \<and> sm_reference_type inn = Some ''transfer_in'')
   \<and> createTransfer pharmacy (JNumber 1) (JNumber 1) 3 (Some ''move'') 7
       = (Inl SameInventory, pharmacy)
   \<and> createTransfer pharmacy_PQ (JNumber 1) (JNumber 2) 3 (Some ''move'') 7
       = (Inl DifferentProducts, pharmacy_PQ)
   \<and> JNumber 1 \<noteq> JString ''1''
   \<and> pg_integer (JNumber 1) = Some 1 \<and> pg_integer (JString ''1'') = Some 1
   \<and> (\<exists>out inn s'. createTransfer pharmacy (JNumber 1) (JString ''1'') 3 (Some ''move'') 7
                      = (Inr (out, inn), s')
         \<and> quantity_on_hand_of s' 1 = Some 13)"
proof -
  have d: "distinct (map i_inventory_id (inventory pharmacy))"
    and d2: "distinct (map i_inventory_id (inventory pharmacy_PQ))"
    by (simp_all add: pharmacy_PQ_def ex_defs)
  have q: "quantity_on_hand_of pharmacy 1 = Some 10" "quantity_on_hand_of pharmacy 2 = Some 10"
    by (simp_all add: quantity_on_hand_of_def ex_defs)
  have m: "stock_movements pharmacy = []" by (simp add: ex_defs)
  have pg: "pg_integer (JNumber 1) = Some 1" "pg_integer (JNumber 2) = Some 2"
    "pg_integer (JString ''1'') = Some 1"
    by (simp_all add: pg_defs trim_def is_space_def)
  have r: "\<not> reason_missing (Some ''move'')"
    by (simp add: reason_missing_def falsy_def trim_def is_space_def)
  note between = transfer_conserves_unless_same_row
    [OF d, where a = "JNumber 1" and b = "JNumber 2" and q = 3 and reason = "Some ''move''"
       and uid = 7, THEN conjunct1, rule_format]
  note equal = transfer_conserves_unless_same_row
    [OF d, where a = "JNumber 1" and b = "JNumber 1" and q = 3 and reason = "Some ''move''"
       and uid = 7, THEN conjunct2, THEN conjunct1, rule_format]
  note products = transfer_conserves_unless_same_row
    [OF d2, where a = "JNumber 1" and b = "JNumber 2" and q = 3 and reason = "Some ''move''"
       and uid = 7, THEN conjunct2, THEN conjunct1, rule_format]
  note one_row = transfer_conserves_unless_same_row
    [OF d, where a = "JNumber 1" and b = "JString ''1''" and q = 3 and reason = "Some ''move''"
       and uid = 7 and k = 1 and row = batch_X and rest = "[]",
     THEN conjunct2, THEN conjunct2, rule_format]

  have "\<exists>r s'. createTransfer pharmacy (JNumber 1) (JNumber 2) 3 (Some ''move'') 7 = (Inr r, s')"
    by (simp add: ex_defs transfer_defs pg_defs transaction_def falsy_def Let_def)
  then obtain out inn s' where
    ok: "createTransfer pharmacy (JNumber 1) (JNumber 2) 3 (Some ''move'') 7 = (Inr (out, inn), s')"
    by (metis surj_pair)
  from between [OF ok] obtain ka kb ha hb where
    k: "pg_integer (JNumber 1) = Some ka" "pg_integer (JNumber 2) = Some kb"
    and h: "quantity_on_hand_of pharmacy ka = Some ha" "quantity_on_hand_of pharmacy kb = Some hb"
    and c: "if ka = kb then quantity_on_hand_of s' ka = Some (ha + 3)
            else (\<exists>ha' hb'. quantity_on_hand_of s' ka = Some ha'
                    \<and> quantity_on_hand_of s' kb = Some hb'
                    \<and> ha' = ha - 3 \<and> hb' = hb + 3 \<and> ha' + hb' = ha + hb)"
    and l: "stock_movements s' = stock_movements pharmacy @ [out, inn]"
           "sm_movement_type out = ''transfer''" "sm_reference_type out = Some ''transfer_out''"
           "sm_movement_type inn = ''transfer''" "sm_reference_type inn = Some ''transfer_in''"
    by (elim exE conjE)
  from k pg have kk: "ka = 1" "kb = 2" by simp_all
  from h q kk have hh: "ha = 10" "hb = 10" by simp_all
  from c kk hh have after: "quantity_on_hand_of s' 1 = Some 7" "quantity_on_hand_of s' 2 = Some 13"
    by simp_all
  from l m have log: "stock_movements s' = [out, inn]" by simp

  have same: "createTransfer pharmacy (JNumber 1) (JNumber 1) 3 (Some ''move'') 7
               = (Inl SameInventory, pharmacy)"
    by (simp add: createTransfer_def js_falsy_def)
  have "\<exists>e. createTransfer pharmacy (JNumber 1) (JNumber 1) 3 (Some ''move'') 7 = (Inl e, pharmacy)"
    by (rule equal) simp

  have cross: "JNumber 1 = JNumber 2
               \<or> (\<exists>ia \<in> set (inventory pharmacy_PQ). \<exists>ib \<in> set (inventory pharmacy_PQ).
                 pg_integer (JNumber 1) = Some (i_inventory_id ia)
                 \<and> pg_integer (JNumber 2) = Some (i_inventory_id ib)
                 \<and> i_product_id ia \<noteq> i_product_id ib)"
    by (simp add: pharmacy_PQ_def ex_defs pg)
  from products [OF cross] obtain e where
    e: "createTransfer pharmacy_PQ (JNumber 1) (JNumber 2) 3 (Some ''move'') 7
          = (Inl e, pharmacy_PQ)" ..
  have "fst (createTransfer pharmacy_PQ (JNumber 1) (JNumber 2) 3 (Some ''move'') 7)
          = Inl DifferentProducts"
    by (simp add: pharmacy_PQ_def product_Q_def ex_defs transfer_defs pg_defs transaction_def
        falsy_def Let_def)
  with e have different: "createTransfer pharmacy_PQ (JNumber 1) (JNumber 2) 3 (Some ''move'') 7
                       = (Inl DifferentProducts, pharmacy_PQ)"
    by simp

  have row: "inventoryQuery pharmacy 1 = batch_X # []"
    by (simp add: inventoryQuery_def ex_defs)
  have enough: "3 \<le> i_quantity_on_hand batch_X" by (simp add: batch_X_def)
  have hyp: "JNumber 1 \<noteq> JString ''1'' \<and> \<not> js_falsy (JNumber 1) \<and> \<not> js_falsy (JString ''1'')
            \<and> (0::int) < 3 \<and> \<not> reason_missing (Some ''move'')
            \<and> pg_integer (JNumber 1) = Some 1 \<and> pg_integer (JString ''1'') = Some 1
            \<and> inventoryQuery pharmacy 1 = batch_X # [] \<and> 3 \<le> i_quantity_on_hand batch_X"
    using pg r row enough by (simp add: js_falsy_def)
  from one_row [OF hyp] obtain out1 inn1 s1 where
    hole: "createTransfer pharmacy (JNumber 1) (JString ''1'') 3 (Some ''move'') 7
             = (Inr (out1, inn1), s1)"
    and after1: "quantity_on_hand_of s1 1 = Some (i_quantity_on_hand batch_X + 3)"
    by (elim exE conjE)
  from after1 have thirteen: "quantity_on_hand_of s1 1 = Some 13" by (simp add: batch_X_def)

  show ?thesis
  proof (intro conjI)
    show "distinct (map i_inventory_id (inventory pharmacy))" by (rule d)
    show "quantity_on_hand_of pharmacy 1 = Some 10" "quantity_on_hand_of pharmacy 2 = Some 10"
      by (rule q)+
    show "\<exists>out inn s'. createTransfer pharmacy (JNumber 1) (JNumber 2) 3 (Some ''move'') 7
                      = (Inr (out, inn), s')
         \<and> quantity_on_hand_of s' 1 = Some 7 \<and> quantity_on_hand_of s' 2 = Some 13
         \<and> stock_movements s' = [out, inn]
         \<and> sm_movement_type out = ''transfer'' \<and> sm_reference_type out = Some ''transfer_out''
         \<and> sm_movement_type inn = ''transfer'' \<and> sm_reference_type inn = Some ''transfer_in''"
      using ok after log l(2-5) by (intro exI conjI)
    show "createTransfer pharmacy (JNumber 1) (JNumber 1) 3 (Some ''move'') 7
            = (Inl SameInventory, pharmacy)" by (rule same)
    show "createTransfer pharmacy_PQ (JNumber 1) (JNumber 2) 3 (Some ''move'') 7
            = (Inl DifferentProducts, pharmacy_PQ)" by (rule different)
    show "JNumber 1 \<noteq> JString ''1''" by simp
    show "pg_integer (JNumber 1) = Some 1" "pg_integer (JString ''1'') = Some 1"
      by (rule pg)+
    show "\<exists>out inn s'. createTransfer pharmacy (JNumber 1) (JString ''1'') 3 (Some ''move'') 7
                      = (Inr (out, inn), s')
         \<and> quantity_on_hand_of s' 1 = Some 13"
      using hole thirteen by (intro exI conjI)
  qed
qed


section \<open>Adjustment\<close>

text \<open>
  Claim C2. An adjustment that would take the quantity on hand below zero is refused
  and nothing changes. StockMovementController.createAdjustment does so. The handler
  InventoryController.inventoryAdjustment does not: it passes \<open>Math.max(0, ...)\<close>,
  that is \<open>0\<close>, to \<open>Inventory.updateQuantity\<close> and reports what that call returns,
  with the requested delta as \<open>adjustment_made\<close>.
\<close>

theorem inventoryAdjustment_clamps_at_zero:
  assumes "0 < k" and "\<not> reason_missing reason"
    and "i_quantity_on_hand current + delta < 0"
  shows "(findById st k = Some current \<longrightarrow>
            inventoryAdjustment findById updateQuantity st (Some k) (Some delta) reason
            = (case updateQuantity st k 0 (the reason) of
                 (Inl e, st') \<Rightarrow> (Inl e, st')
               | (Inr updated, st') \<Rightarrow>
                   (Inr \<lparr>updatedInventory = updated, adjustment_made = delta,
                         previous_quantity = i_quantity_on_hand current\<rparr>, st')))
       \<and> (inventoryQuery s k = current # rest \<longrightarrow>
            (\<exists>e. createAdjustment s k adjustmentType delta reason unitCost userId = (Inl e, s)))"
  using assms
  by (auto simp: inventoryAdjustment_def createAdjustment_def createAdjustment_callback_def
      transaction_def Let_def split: prod.splits sum.splits)

text \<open>
  A batch with 3 units on hand and a delta of \<open>-5\<close>, with a store that is the list
  of batches: inventoryAdjustment answers with success and the batch holds 0 units;
  createAdjustment refuses and the batch keeps its 3 units.
\<close>

theorem inventoryAdjustment_clamps_at_zero_witness:
  "inventoryAdjustment
     (\<lambda>st k. find (\<lambda>i. i_inventory_id i = k) st)
     (\<lambda>st k q r. (Inr (batch_X\<lparr>i_quantity_on_hand := q\<rparr>),
                   map (\<lambda>i. if i_inventory_id i = k then i\<lparr>i_quantity_on_hand := q\<rparr> else i) st))
     [batch_X\<lparr>i_quantity_on_hand := 3\<rparr>] (Some 1) (Some (- 5)) (Some ''damaged'')
   = (Inr \<lparr>updatedInventory = batch_X\<lparr>i_quantity_on_hand := 0\<rparr>, adjustment_made = - 5,
           previous_quantity = 3\<rparr>,
      [batch_X\<lparr>i_quantity_on_hand := 0\<rparr>])
   \<and> createAdjustment (pharmacy\<lparr>inventory := [batch_X\<lparr>i_quantity_on_hand := 3\<rparr>]\<rparr>)
        1 None (- 5) (Some ''damaged'') None 7
     = (Inl (NegativeQuantity 5 3), pharmacy\<lparr>inventory := [batch_X\<lparr>i_quantity_on_hand := 3\<rparr>]\<rparr>)"
proof -
  let ?three = "batch_X\<lparr>i_quantity_on_hand := 3\<rparr>"
  let ?s = "pharmacy\<lparr>inventory := [?three]\<rparr>"
  have k: "(0::int) < 1" by simp
  have r: "\<not> reason_missing (Some ''damaged'')"
    by (simp add: reason_missing_def falsy_def trim_def is_space_def)
  have n: "i_quantity_on_hand ?three + (- 5) < 0" by simp
  have f: "find (\<lambda>i. i_inventory_id i = 1) [?three] = Some ?three" by (simp add: ex_defs)
  have q: "inventoryQuery ?s 1 = ?three # []" by (simp add: inventoryQuery_def ex_defs)
  note t = inventoryAdjustment_clamps_at_zero [OF k r n,
      of "\<lambda>st k. find (\<lambda>i. i_inventory_id i = k) st" "[?three]"
         "\<lambda>st k q r. (Inr (batch_X\<lparr>i_quantity_on_hand := q\<rparr>),
                   map (\<lambda>i. if i_inventory_id i = k then i\<lparr>i_quantity_on_hand := q\<rparr> else i) st)"
         ?s "[]" None None 7]
  from t f have a: "inventoryAdjustment
     (\<lambda>st k. find (\<lambda>i. i_inventory_id i = k) st)
     (\<lambda>st k q r. (Inr (batch_X\<lparr>i_quantity_on_hand := q\<rparr>),
                   map (\<lambda>i. if i_inventory_id i = k then i\<lparr>i_quantity_on_hand := q\<rparr> else i) st))
     [?three] (Some 1) (Some (- 5)) (Some ''damaged'')
   = (Inr \<lparr>updatedInventory = batch_X\<lparr>i_quantity_on_hand := 0\<rparr>, adjustment_made = - 5,
           previous_quantity = 3\<rparr>,
      [batch_X\<lparr>i_quantity_on_hand := 0\<rparr>])"
    by (simp add: ex_defs)
  have b: "createAdjustment ?s 1 None (- 5) (Some ''damaged'') None 7 = (Inl (NegativeQuantity 5 3), ?s)"
    by (simp add: ex_defs transfer_defs transaction_def falsy_def Let_def)
  from t q have "\<exists>e. createAdjustment ?s 1 None (- 5) (Some ''damaged'') None 7 = (Inl e, ?s)"
    by simp
  with a b show ?thesis by simp
qed


section \<open>Sale and refund\<close>

lemma filter_by_key:
  "distinct (map f xs) \<Longrightarrow> x \<in> set xs \<Longrightarrow> [i \<leftarrow> xs. f i = f x] = [x]"
  by (induction xs) (auto simp: image_iff filter_empty_conv)

lemma fold_insert_stock_movement_fields [simp]:
  "products (fold (\<lambda>i. insert_stock_movement (m i)) rows s) = products s"
  "sales (fold (\<lambda>i. insert_stock_movement (m i)) rows s) = sales s"
  "sale_items (fold (\<lambda>i. insert_stock_movement (m i)) rows s) = sale_items s"
  "inventory (fold (\<lambda>i. insert_stock_movement (m i)) rows s) = inventory s"
  by (induction rows arbitrary: s) simp_all

lemma inventoryCheck_member:
  "inventoryCheck s item = b # rest \<Longrightarrow> b \<in> set (inventory s)"
proof -
  assume "inventoryCheck s item = b # rest"
  then have "b \<in> set (inventoryCheck s item)" by simp
  then show ?thesis
    by (auto simp: inventoryCheck_def split: option.splits if_splits dest: in_set_takeD)
qed

text \<open>The state that a committed sale of one line leaves.\<close>

lemma createSale_one_line:
  assumes "items body = [item]" and "createSale d s body = (Inr r, s1)"
  shows "\<exists>b \<in> set (inventory s). \<exists>row.
           inventory s1
             = map (\<lambda>i. if i_inventory_id i = i_inventory_id b
                         then i\<lparr>i_quantity_on_hand := i_quantity_on_hand i - quantity item\<rparr>
                         else i)
                   (inventory s)
           \<and> sale_items s1 = sale_items s @ [row]
           \<and> si_sale_id row = sr_id r \<and> si_inventory_id row = i_inventory_id b
           \<and> si_quantity row = quantity item
           \<and> sr_id r = fresh_id (map s_sale_id (sales s))
           \<and> products s1 = products s
           \<and> stock_movements s1 = stock_movements s
           \<and> 0 < quantity item"
proof -
  from assms obtain acc where
    acc: "process_item (prescriptionNumber body)
            \<lparr>acc_db = s, subtotal = 0, totalTaxAmount = 0, processedItems = []\<rparr> item = Inr acc"
    by (auto simp: createSale_def createSale_callback_def transaction_def
        split: if_splits sum.splits)
  then obtain b rest where b: "inventoryCheck s item = b # rest"
    by (auto simp: process_item_def split: if_splits list.splits)
  have pos: "0 < quantity item"
    using acc by (auto simp: process_item_def split: if_splits)
  from acc b have db: "acc_db acc = update_inventory (i_inventory_id b)
         (\<lambda>i. i\<lparr>i_quantity_reserved := i_quantity_reserved i + quantity item\<rparr>) s"
    and pi: "\<exists>p. processedItems acc = [p] \<and> pi_inventoryId p = i_inventory_id b
               \<and> pi_quantity p = quantity item"
    by (auto simp: process_item_def Let_def split: if_splits list.splits)
  from pi obtain p where p: "processedItems acc = [p]" "pi_inventoryId p = i_inventory_id b"
    "pi_quantity p = quantity item" by blast
  from assms acc have s1: "s1 = insert_sale_item (fresh_id (map s_sale_id (sales s)))
        ((acc_db acc)\<lparr>sales := sales (acc_db acc) @
           [\<lparr>s_sale_id = fresh_id (map s_sale_id (sales s)),
             s_subtotal = subtotal acc, s_tax_amount = totalTaxAmount acc,
             s_total_amount = subtotal acc + totalTaxAmount acc,
             s_payment_method = the (paymentMethod body), s_payment_status = d\<rparr>]\<rparr>) p"
    and r: "sr_id r = fresh_id (map s_sale_id (sales s))"
    using p(1) db
    by (auto simp: createSale_def createSale_callback_def transaction_def Let_def
        split: if_splits sum.splits)
  have inv: "inventory s1
             = map (\<lambda>i. if i_inventory_id i = i_inventory_id b
                         then i\<lparr>i_quantity_on_hand := i_quantity_on_hand i - quantity item\<rparr>
                         else i)
                   (inventory s)"
    unfolding s1 db by (simp add: insert_sale_item_def p o_def)
  have rest: "\<exists>row. sale_items s1 = sale_items s @ [row]
           \<and> si_sale_id row = sr_id r \<and> si_inventory_id row = i_inventory_id b
           \<and> si_quantity row = quantity item"
    unfolding s1 db r by (simp add: insert_sale_item_def p)
  have "products s1 = products s" "stock_movements s1 = stock_movements s"
    unfolding s1 db by (simp_all add: insert_sale_item_def)
  with inv rest r pos inventoryCheck_member [OF b] show ?thesis by blast
qed


lemma itemQuery_member:
  "itemQuery s k saleId = it # rest
     \<Longrightarrow> it \<in> set (sale_items s) \<and> si_sale_item_id it = k \<and> si_sale_id it = saleId"
proof -
  assume "itemQuery s k saleId = it # rest"
  then have "it \<in> set (itemQuery s k saleId)" by simp
  then show ?thesis by (auto simp: itemQuery_def split: if_splits)
qed

lemma itemQuery_cong:
  "sale_items s' = sale_items s \<Longrightarrow> products s' = products s
     \<Longrightarrow> itemQuery s' k saleId = itemQuery s k saleId"
  by (simp add: itemQuery_def)

text \<open>What one turn of the refund loop does when the line is found and the check passes.\<close>

lemma refund_one_ok:
  assumes "itemQuery (racc_db acc) k saleId = it # rest" and "q \<le> si_quantity it"
  shows "\<exists>acc'. refund_one saleId reason uid acc \<lparr>saleItemId = k, quantityToRefund = q\<rparr> = Inr acc'
           \<and> inventory (racc_db acc')
               = map (\<lambda>i. if i_inventory_id i = si_inventory_id it
                           then i\<lparr>i_quantity_on_hand := i_quantity_on_hand i + q\<rparr> else i)
                     (inventory (racc_db acc))
           \<and> sale_items (racc_db acc') = sale_items (racc_db acc)
           \<and> products (racc_db acc') = products (racc_db acc)
           \<and> sales (racc_db acc') = sales (racc_db acc)"
  using assms by (simp add: refund_one_def Let_def)

lemma refund_one_sales:
  assumes "refund_one saleId reason uid acc ri = Inr acc'"
  shows "sales (racc_db acc') = sales (racc_db acc)"
proof (cases "itemQuery (racc_db acc) (saleItemId ri) saleId")
  case Nil
  with assms show ?thesis by (simp add: refund_one_def)
next
  case (Cons it rest)
  show ?thesis
  proof (cases "quantityToRefund ri > si_quantity it")
    case True
    with assms Cons show ?thesis by (simp add: refund_one_def)
  next
    case False
    with assms Cons show ?thesis by (auto simp: refund_one_def Let_def)
  qed
qed

lemma refund_items_sales:
  "refund_items saleId reason uid acc ris = Inr acc' \<Longrightarrow> sales (racc_db acc') = sales (racc_db acc)"
proof (induction ris arbitrary: acc)
  case Nil then show ?case by simp
next
  case (Cons ri rest)
  from Cons.prems obtain acc1 where one: "refund_one saleId reason uid acc ri = Inr acc1"
    and more: "refund_items saleId reason uid acc1 rest = Inr acc'"
    by (cases "refund_one saleId reason uid acc ri") simp_all
  from Cons.IH [OF more] refund_one_sales [OF one] show ?case by simp
qed

text \<open>After a refund no row of the sale has the status \<open>completed\<close>.\<close>

lemma processRefund_callback_closes_sale:
  assumes "processRefund_callback saleId refundItems reason refundAmount uid s = Inr (r, s1)"
  shows "saleQuery s1 saleId = []"
proof -
  from assms obtain sale sales' where sale: "saleQuery s saleId = sale # sales'"
    by (cases "saleQuery s saleId") (simp_all add: processRefund_callback_def)
  from assms sale obtain acc where
    acc: "refund_items saleId reason uid \<lparr>racc_db = s, totalRefundAmount = 0\<rparr> refundItems = Inr acc"
    by (cases "refund_items saleId reason uid \<lparr>racc_db = s, totalRefundAmount = 0\<rparr> refundItems")
       (simp_all add: processRefund_callback_def)
  define final where "final = (case (case refundAmount of None \<Rightarrow> None
                            | Some a \<Rightarrow> if a = 0 then None else Some a) of
                          None \<Rightarrow> totalRefundAmount acc | Some a \<Rightarrow> a)"
  define st where "st = (if final \<ge> s_total_amount sale then ''refunded'' else ''partial'')"
  define upd where "upd = (\<lambda>r::sale_row. if s_sale_id r = saleId
                                 then r\<lparr>s_payment_status := st\<rparr> else r)"
  have s1: "sales s1 = map upd (sales (racc_db acc))"
    using assms sale acc unfolding processRefund_callback_def st_def final_def upd_def
    by (auto simp: Let_def split: if_splits)
  have st: "st \<noteq> ''completed''" by (simp add: st_def)
  show ?thesis
    unfolding saleQuery_def filter_empty_conv
  proof (intro ballI notI)
    fix r
    assume r: "r \<in> set (sales s1)"
      and c: "s_sale_id r = saleId \<and> s_payment_status r = ''completed''"
    from r have "r \<in> upd ` set (sales (racc_db acc))" unfolding s1 by simp
    then obtain r' where r': "r = upd r'" by blast
    show False
    proof (cases "s_sale_id r' = saleId")
      case True
      with r' have "s_payment_status r = st" by (simp add: upd_def)
      with c st show False by simp
    next
      case False
      with r' have "s_sale_id r \<noteq> saleId" by (simp add: upd_def)
      with c show False by simp
    qed
  qed
qed

lemma processRefund_closes_sale:
  assumes "processRefund s saleId refundItems reason refundAmount uid = (Inr r, s1)"
  shows "saleQuery s1 saleId = []"
proof -
  from assms have "processRefund_callback saleId refundItems reason refundAmount uid s = Inr (r, s1)"
    by (auto simp: processRefund_def transaction_def split: if_splits sum.splits)
  then show ?thesis by (rule processRefund_callback_closes_sale)
qed

lemma processRefund_twice_fails:
  assumes "processRefund s saleId refundItems reason refundAmount uid = (Inr r, s1)"
  shows "\<exists>e. processRefund s1 saleId refundItems' reason' refundAmount' uid' = (Inl e, s1)"
  using processRefund_closes_sale [OF assms]
  by (simp add: processRefund_def processRefund_callback_def transaction_def)

lemma map_on_hand_twice:
  "map (\<lambda>i. if i_inventory_id i = b
             then i\<lparr>i_quantity_on_hand := i_quantity_on_hand i + q\<rparr> else i)
     (map (\<lambda>i. if i_inventory_id i = b
                then i\<lparr>i_quantity_on_hand := i_quantity_on_hand i + q\<rparr> else i) xs)
   = map (\<lambda>i. if i_inventory_id i = b
               then i\<lparr>i_quantity_on_hand := i_quantity_on_hand i + 2 * q\<rparr> else i) xs"
  by (induction xs) auto

lemma processRefund_same_line_twice:
  assumes sale: "saleQuery s saleId \<noteq> []"
    and it: "itemQuery s k saleId = it # rest" and q: "q \<le> si_quantity it"
  shows "\<exists>r s1. processRefund s saleId
                   [\<lparr>saleItemId = k, quantityToRefund = q\<rparr>,
                    \<lparr>saleItemId = k, quantityToRefund = q\<rparr>] reason None uid = (Inr r, s1)
           \<and> inventory s1
               = map (\<lambda>i. if i_inventory_id i = si_inventory_id it
                           then i\<lparr>i_quantity_on_hand := i_quantity_on_hand i + 2 * q\<rparr> else i)
                     (inventory s)"
proof -
  let ?ri = "\<lparr>saleItemId = k, quantityToRefund = q\<rparr>"
  let ?acc0 = "\<lparr>racc_db = s, totalRefundAmount = 0\<rparr>"
  have it0: "itemQuery (racc_db ?acc0) k saleId = it # rest" using it by simp
  from refund_one_ok [OF it0 q, of reason uid] obtain acc1 where
    one: "refund_one saleId reason uid ?acc0 ?ri = Inr acc1"
    and inv1: "inventory (racc_db acc1)
               = map (\<lambda>i. if i_inventory_id i = si_inventory_id it
                           then i\<lparr>i_quantity_on_hand := i_quantity_on_hand i + q\<rparr> else i)
                     (inventory s)"
    and same: "sale_items (racc_db acc1) = sale_items s" "products (racc_db acc1) = products s"
    by auto
  have it1: "itemQuery (racc_db acc1) k saleId = it # rest"
    using it itemQuery_cong [OF same] by simp
  from refund_one_ok [OF it1 q, of reason uid] obtain acc2 where
    two: "refund_one saleId reason uid acc1 ?ri = Inr acc2"
    and inv2: "inventory (racc_db acc2)
               = map (\<lambda>i. if i_inventory_id i = si_inventory_id it
                           then i\<lparr>i_quantity_on_hand := i_quantity_on_hand i + q\<rparr> else i)
                     (inventory (racc_db acc1))"
    by auto
  have items: "refund_items saleId reason uid ?acc0 [?ri, ?ri] = Inr acc2"
    using one two by simp
  from sale obtain sl sls where sl: "saleQuery s saleId = sl # sls"
    by (cases "saleQuery s saleId") auto
  have "\<exists>r s1. processRefund s saleId [?ri, ?ri] reason None uid = (Inr r, s1)
           \<and> inventory s1 = inventory (racc_db acc2)"
    using sl items
    by (simp add: processRefund_def processRefund_callback_def transaction_def Let_def)
  then show ?thesis unfolding inv2 inv1 map_on_hand_twice .
qed

lemma pharmacy_sold_eq:
  "pharmacy_sold = pharmacy\<lparr>
     inventory := [batch_X\<lparr>i_quantity_on_hand := 5\<rparr>, batch_Y],
     sales := [\<lparr>s_sale_id = 1, s_subtotal = 10, s_tax_amount = 0, s_total_amount = 10,
                s_payment_method = ''cash'', s_payment_status = ''completed''\<rparr>],
     sale_items := [\<lparr>si_sale_item_id = 1, si_sale_id = 1, si_product_id = 1,
                     si_inventory_id = 1, si_quantity = 5, si_unit_price = 2,
                     si_discount_percentage = 0, si_discount_amount = 0, si_line_total = 10,
                     si_expiration_date = Some 0, si_batch_number = ''X''\<rparr>]\<rparr>"
  by (simp add: pharmacy_sold_def ex_defs sale_defs)

lemma first_refund:
  "processRefund pharmacy_sold 1 [\<lparr>saleItemId = 1, quantityToRefund = 5\<rparr>] None None 7
   = (Inr \<lparr>rr_saleId = 1, rr_refundAmount = 10, rr_newPaymentStatus = ''refunded''\<rparr>,
      pharmacy_refunded)"
  unfolding pharmacy_refunded_def
  by (simp add: pharmacy_sold_eq ex_defs refund_defs transaction_def falsy_def fresh_id_def Let_def)

lemma pharmacy_refunded_eq:
  "pharmacy_refunded = pharmacy\<lparr>
     sales := [\<lparr>s_sale_id = 1, s_subtotal = 10, s_tax_amount = 0, s_total_amount = 10,
                s_payment_method = ''cash'', s_payment_status = ''refunded''\<rparr>],
     sale_items := [\<lparr>si_sale_item_id = 1, si_sale_id = 1, si_product_id = 1,
                     si_inventory_id = 1, si_quantity = 5, si_unit_price = 2,
                     si_discount_percentage = 0, si_discount_amount = 0, si_line_total = 10,
                     si_expiration_date = Some 0, si_batch_number = ''X''\<rparr>],
     stock_movements := [\<lparr>sm_movement_id = 1, sm_inventory_id = 1, sm_product_id = 1,
           sm_movement_type = ''return'', sm_quantity_change = 5,
           sm_quantity_before = 5, sm_quantity_after = 10,
           sm_unit_cost = None, sm_reference_id = Some 1,
           sm_reference_type = Some ''sale_refund'',
           sm_reason = ''Sale refund'', sm_performed_by = 7\<rparr>]\<rparr>"
  unfolding pharmacy_refunded_def
  by (simp add: pharmacy_sold_eq ex_defs refund_defs transaction_def falsy_def fresh_id_def Let_def)

lemma filter_key_map:
  assumes "\<And>i. f (g i) = f i" "distinct (map f xs)" "x \<in> set xs"
  shows "[i \<leftarrow> map g xs. f i = f x] = [g x]"
proof -
  have "[i \<leftarrow> map g xs. f i = f x] = map g [i \<leftarrow> xs. f i = f x]"
    by (simp add: filter_map o_def assms(1))
  with filter_by_key [OF assms(2,3)] show ?thesis by simp
qed

text \<open>The movement that one turn of the refund loop writes, under the primary key.\<close>

lemma refund_one_movement:
  assumes it: "itemQuery (racc_db acc) k saleId = it # rest" and q: "q \<le> si_quantity it"
    and d: "distinct (map i_inventory_id (inventory (racc_db acc)))"
    and b: "b \<in> set (inventory (racc_db acc))" "i_inventory_id b = si_inventory_id it"
    and ok: "refund_one saleId reason uid acc \<lparr>saleItemId = k, quantityToRefund = q\<rparr> = Inr acc'"
  shows "\<exists>m. stock_movements (racc_db acc') = stock_movements (racc_db acc) @ [m]
           \<and> sm_movement_type m = ''return'' \<and> sm_quantity_change m = q
           \<and> sm_inventory_id m = si_inventory_id it"
proof -
  let ?g = "\<lambda>i. if i_inventory_id i = si_inventory_id it
                 then i\<lparr>i_quantity_on_hand := i_quantity_on_hand i + q\<rparr> else i"
  have "[i \<leftarrow> map ?g (inventory (racc_db acc)). i_inventory_id i = i_inventory_id b] = [?g b]"
    by (rule filter_key_map [OF _ d b(1)]) simp
  then have one: "[i \<leftarrow> map ?g (inventory (racc_db acc)). i_inventory_id i = si_inventory_id it]
                   = [?g b]"
    using b(2) by simp
  from ok it q show ?thesis
    by (simp add: refund_one_def Let_def one insert_stock_movement_def) (auto simp: b(2))
qed

text \<open>
  Claim C5. A sale of \<open>q\<close> units of one line followed by the full refund of that
  line: every batch is back at its quantity on hand and its reserved quantity (the
  inventory table is the one before the sale). The movement log is not a pair that nets
  to zero: the sale has written nothing, the refund one \<open>return\<close> of \<open>+q\<close>, so the
  signed sum of what the two operations logged is \<open>q\<close>, and \<open>q\<close> is positive.
\<close>

theorem sale_then_full_refund:
  assumes keys: "keys_ok s" and one: "items body = [item]"
    and sale: "createSale d s body = (Inr r, s1)"
    and refund: "processRefund s1 (sr_id r) [\<lparr>saleItemId = k, quantityToRefund = quantity item\<rparr>]
                   reason refundAmount uid = (Inr r2, s2)"
  shows "inventory s2 = inventory s
       \<and> stock_movements s1 = stock_movements s
       \<and> (\<exists>m. stock_movements s2 = stock_movements s @ [m]
              \<and> sm_movement_type m = ''return'' \<and> sm_quantity_change m = quantity item)
       \<and> sum_list (map sm_quantity_change (drop (length (stock_movements s)) (stock_movements s2)))
           = quantity item
       \<and> 0 < quantity item"
proof -
  let ?q = "quantity item"
  let ?sid = "sr_id r"
  from createSale_one_line [OF one sale] obtain b row where
    b: "b \<in> set (inventory s)"
    and inv1: "inventory s1
             = map (\<lambda>i. if i_inventory_id i = i_inventory_id b
                         then i\<lparr>i_quantity_on_hand := i_quantity_on_hand i - ?q\<rparr> else i)
                   (inventory s)"
    and items1: "sale_items s1 = sale_items s @ [row]"
    and row: "si_sale_id row = ?sid" "si_inventory_id row = i_inventory_id b" "si_quantity row = ?q"
    and sid: "?sid = fresh_id (map s_sale_id (sales s))"
    and mov1: "stock_movements s1 = stock_movements s"
    and pos: "0 < ?q"
    by blast
  let ?acc0 = "\<lparr>racc_db = s1, totalRefundAmount = 0\<rparr>"
  let ?ri = "\<lparr>saleItemId = k, quantityToRefund = ?q\<rparr>"
  from refund have cb: "processRefund_callback ?sid [?ri] reason refundAmount uid s1 = Inr (r2, s2)"
    by (auto simp: processRefund_def transaction_def split: sum.splits)
  then obtain acc where acc: "refund_one ?sid reason uid ?acc0 ?ri = Inr acc"
    and s2: "inventory s2 = inventory (racc_db acc)"
            "stock_movements s2 = stock_movements (racc_db acc)"
    by (auto simp: processRefund_callback_def Let_def split: list.splits sum.splits if_splits)
  from acc obtain it rest where it: "itemQuery (racc_db ?acc0) k ?sid = it # rest"
    by (cases "itemQuery (racc_db ?acc0) k ?sid") (simp_all add: refund_one_def)
  then have mem: "it \<in> set (sale_items s1)" and its: "si_sale_id it = ?sid"
    using itemQuery_member [of s1 k ?sid it rest] by simp_all
  have "it \<notin> set (sale_items s)"
  proof
    assume "it \<in> set (sale_items s)"
    with keys have "si_sale_id it \<in> set (map s_sale_id (sales s))" by (simp add: keys_ok_def)
    from fresh_id_gt [OF this] its sid show False by simp
  qed
  with mem items1 have "it = row" by simp
  with row have itb: "si_inventory_id it = i_inventory_id b" and itq: "?q \<le> si_quantity it"
    by simp_all
  from refund_one_ok [OF it itq, of reason uid] acc
  have inv2: "inventory (racc_db acc)
               = map (\<lambda>i. if i_inventory_id i = si_inventory_id it
                           then i\<lparr>i_quantity_on_hand := i_quantity_on_hand i + ?q\<rparr> else i)
                     (inventory s1)"
    by auto
  have restored: "inventory s2 = inventory s"
    unfolding s2(1) inv2 inv1 itb by (simp add: o_def map_idI)
  let ?g = "\<lambda>i. if i_inventory_id i = i_inventory_id b
                 then i\<lparr>i_quantity_on_hand := i_quantity_on_hand i - ?q\<rparr> else i"
  have d1: "distinct (map i_inventory_id (inventory (racc_db ?acc0)))"
  proof -
    have "map i_inventory_id (inventory s1) = map i_inventory_id (inventory s)"
      unfolding inv1 by (simp add: o_def)
    with keys show ?thesis by (simp add: keys_ok_def)
  qed
  have b1: "?g b \<in> set (inventory (racc_db ?acc0))" "i_inventory_id (?g b) = si_inventory_id it"
    using b itb unfolding inv1 by (simp_all add: inv1)
  from refund_one_movement [OF it itq d1 b1 acc] obtain m where
    m: "stock_movements (racc_db acc) = stock_movements s1 @ [m]"
       "sm_movement_type m = ''return''" "sm_quantity_change m = ?q"
    by auto
  from m mov1 s2(2) have log: "stock_movements s2 = stock_movements s @ [m]" by simp
  then have "sum_list (map sm_quantity_change (drop (length (stock_movements s)) (stock_movements s2)))
           = ?q" using m(3) by simp
  with restored mov1 log m(2,3) pos show ?thesis by blast
qed


text \<open>
  The sale of 5 units of P and its refund: batches X and Y are as before, the log holds
  the single movement \<open>(return, +5)\<close>.
\<close>

theorem sale_then_full_refund_witness:
  "keys_ok pharmacy
   \<and> createSale ''completed'' pharmacy (sale_of [5])
       = (Inr \<lparr>sr_id = 1, sr_subtotal = 10, sr_taxAmount = 0, sr_totalAmount = 10,
               sr_itemCount = 1\<rparr>, pharmacy_sold)
   \<and> processRefund pharmacy_sold 1 [\<lparr>saleItemId = 1, quantityToRefund = 5\<rparr>] None None 7
       = (Inr \<lparr>rr_saleId = 1, rr_refundAmount = 10, rr_newPaymentStatus = ''refunded''\<rparr>,
          pharmacy_refunded)
   \<and> inventory pharmacy_refunded = inventory pharmacy
   \<and> stock_movements pharmacy_sold = []
   \<and> map (\<lambda>m. (sm_movement_type m, sm_quantity_change m)) (stock_movements pharmacy_refunded)
       = [(''return'', 5)]
   \<and> sum_list (map sm_quantity_change (stock_movements pharmacy_refunded)) = 5"
proof -
  let ?r = "\<lparr>sr_id = 1, sr_subtotal = 10, sr_taxAmount = 0, sr_totalAmount = 10,
               sr_itemCount = 1\<rparr>"
  have keys: "keys_ok pharmacy" by (simp add: keys_ok_def ex_defs)
  have one: "items (sale_of [5]) = [line_of 5]" by (simp add: sale_of_def)
  have "fst (createSale ''completed'' pharmacy (sale_of [5])) = Inr ?r"
    by (simp add: ex_defs sale_defs)
  then have sale: "createSale ''completed'' pharmacy (sale_of [5]) = (Inr ?r, pharmacy_sold)"
    unfolding pharmacy_sold_def by (simp add: prod_eq_iff)
  have refund: "processRefund pharmacy_sold (sr_id ?r)
                  [\<lparr>saleItemId = 1, quantityToRefund = quantity (line_of 5)\<rparr>] None None 7
                = (Inr \<lparr>rr_saleId = 1, rr_refundAmount = 10, rr_newPaymentStatus = ''refunded''\<rparr>,
                   pharmacy_refunded)"
    using first_refund by (simp add: line_of_def)
  have empty: "stock_movements pharmacy = []" by (simp add: ex_defs)
  from sale_then_full_refund [OF keys one sale refund] empty
  have "inventory pharmacy_refunded = inventory pharmacy"
    and "stock_movements pharmacy_sold = []"
    and "\<exists>m. stock_movements pharmacy_refunded = [m]
              \<and> sm_movement_type m = ''return'' \<and> sm_quantity_change m = quantity (line_of 5)"
    by simp_all
  moreover have "quantity (line_of 5) = 5" by (simp add: line_of_def)
  ultimately have "inventory pharmacy_refunded = inventory pharmacy"
    "stock_movements pharmacy_sold = []"
    "map (\<lambda>m. (sm_movement_type m, sm_quantity_change m)) (stock_movements pharmacy_refunded)
       = [(''return'', 5)]"
    "sum_list (map sm_quantity_change (stock_movements pharmacy_refunded)) = 5"
    by auto
  with keys sale first_refund show ?thesis by simp
qed

lemma refund_one_tables:
  assumes "refund_one saleId reason uid acc ri = Inr acc'"
  shows "sale_items (racc_db acc') = sale_items (racc_db acc)
       \<and> products (racc_db acc') = products (racc_db acc)"
proof (cases "itemQuery (racc_db acc) (saleItemId ri) saleId")
  case Nil
  with assms show ?thesis by (simp add: refund_one_def)
next
  case (Cons it rest)
  show ?thesis
  proof (cases "quantityToRefund ri > si_quantity it")
    case True
    with assms Cons show ?thesis by (simp add: refund_one_def)
  next
    case False
    with assms Cons show ?thesis by (auto simp: refund_one_def Let_def)
  qed
qed

lemma refund_items_tables:
  "refund_items saleId reason uid acc ris = Inr acc'
     \<Longrightarrow> sale_items (racc_db acc') = sale_items (racc_db acc)
       \<and> products (racc_db acc') = products (racc_db acc)"
proof (induction ris arbitrary: acc)
  case Nil then show ?case by simp
next
  case (Cons ri rest)
  from Cons.prems obtain acc1 where one: "refund_one saleId reason uid acc ri = Inr acc1"
    and more: "refund_items saleId reason uid acc1 rest = Inr acc'"
    by (cases "refund_one saleId reason uid acc ri") simp_all
  from Cons.IH [OF more] refund_one_tables [OF one] show ?case by simp
qed

lemma refund_items_append:
  "refund_items saleId reason uid acc (earlier @ later)
   = (case refund_items saleId reason uid acc earlier of
        Inl e \<Rightarrow> Inl e
      | Inr acc' \<Rightarrow> refund_items saleId reason uid acc' later)"
  by (induction earlier arbitrary: acc) (simp_all split: sum.splits)

text \<open>A request above the sold quantity is refused, whatever the request held before it.\<close>

lemma refund_one_above_sold:
  assumes it: "itemQuery s k saleId = it # rest" and q: "si_quantity it < q"
    and earlier: "refund_items saleId reason uid \<lparr>racc_db = s, totalRefundAmount = 0\<rparr> earlier
                    = Inr acc"
  shows "refund_one saleId reason uid acc \<lparr>saleItemId = k, quantityToRefund = q\<rparr>
                    = Inl (RefundExceedsSold q (si_quantity it))"
proof -
  from refund_items_tables [OF earlier]
  have "sale_items (racc_db acc) = sale_items s" "products (racc_db acc) = products s"
    by simp_all
  then have "itemQuery (racc_db acc) k saleId = itemQuery s k saleId"
    by (rule itemQuery_cong)
  with it have iq: "itemQuery (racc_db acc) k saleId = it # rest" by simp
  show ?thesis using q by (simp add: refund_one_def iq)
qed

lemma processRefund_above_sold:
  assumes sale: "saleQuery s saleId \<noteq> []"
    and it: "itemQuery s k saleId = it # rest" and q: "si_quantity it < q"
    and earlier: "refund_items saleId reason uid \<lparr>racc_db = s, totalRefundAmount = 0\<rparr> earlier
                    = Inr acc"
  shows "processRefund s saleId (earlier @ \<lparr>saleItemId = k, quantityToRefund = q\<rparr> # later)
           reason refundAmount uid
         = (Inl (RefundExceedsSold q (si_quantity it)), s)"
proof -
  have items: "refund_items saleId reason uid \<lparr>racc_db = s, totalRefundAmount = 0\<rparr>
          (earlier @ \<lparr>saleItemId = k, quantityToRefund = q\<rparr> # later)
        = Inl (RefundExceedsSold q (si_quantity it))"
    by (simp add: refund_items_append earlier refund_one_above_sold [OF it q earlier])
  from sale obtain sl sls where sl: "saleQuery s saleId = sl # sls"
    by (cases "saleQuery s saleId") auto
  have "processRefund_callback saleId
          (earlier @ \<lparr>saleItemId = k, quantityToRefund = q\<rparr> # later) reason refundAmount uid s
        = Inl (RefundExceedsSold q (si_quantity it))"
    by (simp add: processRefund_callback_def sl items)
  then show ?thesis
    by (simp add: processRefund_def transaction_def)
qed

text \<open>
  Claim C10, as amended. The refund check compares the requested quantity of each item
  with the quantity of the line as sold, and with nothing else: a request above the sold
  quantity is refused wherever it stands in the list, and nothing changes; a request
  within it passes, whatever has been refunded before. A second call on the same sale is
  refused all the same, because the first call leaves the sale with the status
  \<open>refunded\<close> or \<open>partial\<close> and only a \<open>completed\<close> sale is found. Within one
  call the check can be passed twice: a request that lists the same line two times,
  each within the sold quantity, goes through and adds twice the quantity to the batch.
\<close>

theorem refund_check_ignores_earlier_refunds:
  "(\<forall>r s1. processRefund s saleId refundItems reason refundAmount uid = (Inr r, s1) \<longrightarrow>
       (\<exists>e. processRefund s1 saleId refundItems' reason' refundAmount' uid' = (Inl e, s1)))
   \<and> (saleQuery s saleId \<noteq> [] \<and> itemQuery s k saleId = it # rest \<and> q \<le> si_quantity it \<longrightarrow>
       (\<exists>r s1. processRefund s saleId
                   [\<lparr>saleItemId = k, quantityToRefund = q\<rparr>,
                    \<lparr>saleItemId = k, quantityToRefund = q\<rparr>] reason None uid = (Inr r, s1)
           \<and> inventory s1
               = map (\<lambda>i. if i_inventory_id i = si_inventory_id it
                           then i\<lparr>i_quantity_on_hand := i_quantity_on_hand i + 2 * q\<rparr> else i)
                     (inventory s)))
   \<and> (saleQuery s saleId \<noteq> [] \<and> itemQuery s k saleId = it # rest \<and> si_quantity it < q
         \<and> refund_items saleId reason uid \<lparr>racc_db = s, totalRefundAmount = 0\<rparr> earlier = Inr acc
       \<longrightarrow> processRefund s saleId
             (earlier @ \<lparr>saleItemId = k, quantityToRefund = q\<rparr> # later) reason refundAmount uid
           = (Inl (RefundExceedsSold q (si_quantity it)), s))"
proof (intro conjI allI impI)
  fix r s1
  assume "processRefund s saleId refundItems reason refundAmount uid = (Inr r, s1)"
  then show "\<exists>e. processRefund s1 saleId refundItems' reason' refundAmount' uid' = (Inl e, s1)"
    by (rule processRefund_twice_fails)
next
  assume a: "saleQuery s saleId \<noteq> [] \<and> itemQuery s k saleId = it # rest \<and> q \<le> si_quantity it"
  then have "saleQuery s saleId \<noteq> []" "itemQuery s k saleId = it # rest" "q \<le> si_quantity it"
    by simp_all
  then show "\<exists>r s1. processRefund s saleId
                   [\<lparr>saleItemId = k, quantityToRefund = q\<rparr>,
                    \<lparr>saleItemId = k, quantityToRefund = q\<rparr>] reason None uid = (Inr r, s1)
           \<and> inventory s1
               = map (\<lambda>i. if i_inventory_id i = si_inventory_id it
                           then i\<lparr>i_quantity_on_hand := i_quantity_on_hand i + 2 * q\<rparr> else i)
                     (inventory s)"
    by (rule processRefund_same_line_twice)
next
  assume a: "saleQuery s saleId \<noteq> [] \<and> itemQuery s k saleId = it # rest \<and> si_quantity it < q
         \<and> refund_items saleId reason uid \<lparr>racc_db = s, totalRefundAmount = 0\<rparr> earlier = Inr acc"
  then have "saleQuery s saleId \<noteq> []" "itemQuery s k saleId = it # rest" "si_quantity it < q"
    "refund_items saleId reason uid \<lparr>racc_db = s, totalRefundAmount = 0\<rparr> earlier = Inr acc"
    by simp_all
  then show "processRefund s saleId
             (earlier @ \<lparr>saleItemId = k, quantityToRefund = q\<rparr> # later) reason refundAmount uid
           = (Inl (RefundExceedsSold q (si_quantity it)), s)"
    by (rule processRefund_above_sold)
qed

text \<open>
  The line sold with 5 units: a second call after the full refund is refused; one call
  for 5 and 5 units goes through and batch X holds 15 units, 5 more than before the
  sale; a call for 6 units, alone or after 5, is refused with the sold quantity 5.
\<close>

theorem refund_check_ignores_earlier_refunds_witness:
  "(\<exists>r. processRefund pharmacy_sold 1 [\<lparr>saleItemId = 1, quantityToRefund = 5\<rparr>] None None 7
          = (Inr r, pharmacy_refunded))
   \<and> (\<exists>e. processRefund pharmacy_refunded 1 [\<lparr>saleItemId = 1, quantityToRefund = 5\<rparr>] None None 7
          = (Inl e, pharmacy_refunded))
   \<and> map i_quantity_on_hand (inventory pharmacy) = [10, 10]
   \<and> map i_quantity_on_hand (inventory pharmacy_sold) = [5, 10]
   \<and> map si_quantity (sale_items pharmacy_sold) = [5]
   \<and> (\<exists>r s1. processRefund pharmacy_sold 1
                 [\<lparr>saleItemId = 1, quantityToRefund = 5\<rparr>,
                  \<lparr>saleItemId = 1, quantityToRefund = 5\<rparr>] None None 7 = (Inr r, s1)
          \<and> map i_quantity_on_hand (inventory s1) = [15, 10])
   \<and> processRefund pharmacy_sold 1 [\<lparr>saleItemId = 1, quantityToRefund = 6\<rparr>] None None 7
       = (Inl (RefundExceedsSold 6 5), pharmacy_sold)
   \<and> processRefund pharmacy_sold 1
        [\<lparr>saleItemId = 1, quantityToRefund = 5\<rparr>, \<lparr>saleItemId = 1, quantityToRefund = 6\<rparr>]
        None None 7
       = (Inl (RefundExceedsSold 6 5), pharmacy_sold)"
proof -
  let ?ri = "\<lparr>saleItemId = 1, quantityToRefund = 5\<rparr>"
  let ?six = "\<lparr>saleItemId = 1, quantityToRefund = 6\<rparr>"
  let ?it = "\<lparr>si_sale_item_id = 1, si_sale_id = 1, si_product_id = 1,
                     si_inventory_id = 1, si_quantity = 5, si_unit_price = 2,
                     si_discount_percentage = 0, si_discount_amount = 0, si_line_total = 10,
                     si_expiration_date = Some 0, si_batch_number = ''X''\<rparr>"
  let ?acc0 = "\<lparr>racc_db = pharmacy_sold, totalRefundAmount = 0\<rparr>"
  note again = refund_check_ignores_earlier_refunds
    [where s = pharmacy_sold and saleId = 1 and refundItems = "[?ri]" and reason = None
       and refundAmount = None and uid = 7 and refundItems' = "[?ri]" and reason' = None
       and refundAmount' = None and uid' = 7, THEN conjunct1, rule_format]
  note twice = refund_check_ignores_earlier_refunds
    [where s = pharmacy_sold and saleId = 1 and k = 1 and it = ?it and rest = "[]" and q = 5
       and reason = None and uid = 7, THEN conjunct2, THEN conjunct1, rule_format]
  note above = refund_check_ignores_earlier_refunds
    [where s = pharmacy_sold and saleId = 1 and k = 1 and it = ?it and rest = "[]" and q = 6
       and reason = None and refundAmount = None and uid = 7,
     THEN conjunct2, THEN conjunct2, rule_format]
  have sale: "saleQuery pharmacy_sold 1 \<noteq> []"
    by (simp add: pharmacy_sold_eq saleQuery_def)
  have item: "itemQuery pharmacy_sold 1 1 = ?it # []"
    by (simp add: pharmacy_sold_eq itemQuery_def ex_defs)
  have nothing: "refund_items 1 None 7 ?acc0 [] = Inr ?acc0" by simp
  have "\<exists>acc. refund_items 1 None 7 ?acc0 [?ri] = Inr acc"
    by (simp add: pharmacy_sold_eq ex_defs refund_defs falsy_def fresh_id_def Let_def)
  then obtain acc where five: "refund_items 1 None 7 ?acc0 [?ri] = Inr acc" ..
  have h5: "saleQuery pharmacy_sold 1 \<noteq> [] \<and> itemQuery pharmacy_sold 1 1 = ?it # []
            \<and> 5 \<le> si_quantity ?it"
    using sale item by simp
  have h6: "saleQuery pharmacy_sold 1 \<noteq> [] \<and> itemQuery pharmacy_sold 1 1 = ?it # []
            \<and> si_quantity ?it < 6 \<and> refund_items 1 None 7 ?acc0 [] = Inr ?acc0"
    using sale item nothing by simp
  have h56: "saleQuery pharmacy_sold 1 \<noteq> [] \<and> itemQuery pharmacy_sold 1 1 = ?it # []
            \<and> si_quantity ?it < 6 \<and> refund_items 1 None 7 ?acc0 [?ri] = Inr acc"
    using sale item five by simp
  from twice [OF h5] obtain r s1 where
    two: "processRefund pharmacy_sold 1 [?ri, ?ri] None None 7 = (Inr r, s1)"
    and inv: "inventory s1
               = map (\<lambda>i. if i_inventory_id i = si_inventory_id ?it
                           then i\<lparr>i_quantity_on_hand := i_quantity_on_hand i + 2 * 5\<rparr> else i)
                     (inventory pharmacy_sold)"
    by (elim exE conjE)
  have fifteen: "map i_quantity_on_hand (inventory s1) = [15, 10]"
    unfolding inv by (simp add: pharmacy_sold_eq ex_defs)
  from above [of "[]" ?acc0 "[]", OF h6]
  have six: "processRefund pharmacy_sold 1 [?six] None None 7
               = (Inl (RefundExceedsSold 6 5), pharmacy_sold)"
    by simp
  from above [of "[?ri]" acc "[]", OF h56]
  have five_six: "processRefund pharmacy_sold 1 [?ri, ?six] None None 7
               = (Inl (RefundExceedsSold 6 5), pharmacy_sold)"
    by simp
  show ?thesis
  proof (intro conjI)
    show "\<exists>r. processRefund pharmacy_sold 1 [?ri] None None 7 = (Inr r, pharmacy_refunded)"
      by (intro exI) (rule first_refund)
    show "\<exists>e. processRefund pharmacy_refunded 1 [?ri] None None 7 = (Inl e, pharmacy_refunded)"
      by (rule again [OF first_refund])
    show "map i_quantity_on_hand (inventory pharmacy) = [10, 10]"
      by (simp add: ex_defs)
    show "map i_quantity_on_hand (inventory pharmacy_sold) = [5, 10]"
      by (simp add: pharmacy_sold_eq ex_defs)
    show "map si_quantity (sale_items pharmacy_sold) = [5]"
      by (simp add: pharmacy_sold_eq)
    show "\<exists>r s1. processRefund pharmacy_sold 1 [?ri, ?ri] None None 7 = (Inr r, s1)
          \<and> map i_quantity_on_hand (inventory s1) = [15, 10]"
      using two fifteen by (intro exI conjI)
    show "processRefund pharmacy_sold 1 [?six] None None 7
            = (Inl (RefundExceedsSold 6 5), pharmacy_sold)" by (rule six)
    show "processRefund pharmacy_sold 1 [?ri, ?six] None None 7
            = (Inl (RefundExceedsSold 6 5), pharmacy_sold)" by (rule five_six)
  qed
qed


text \<open>
  The sale of 5 units, refunded in full by a first call: the second call for the same
  5 units is refused and batch X stays at 10, where the claim has both calls succeed.
\<close>

theorem second_refund_call_counterexample:
  "fst (createSale ''completed'' pharmacy (sale_of [5]))
     = Inr \<lparr>sr_id = 1, sr_subtotal = 10, sr_taxAmount = 0, sr_totalAmount = 10, sr_itemCount = 1\<rparr>
   \<and> map si_quantity (sale_items pharmacy_sold) = [5]
   \<and> processRefund pharmacy_sold 1 [\<lparr>saleItemId = 1, quantityToRefund = 5\<rparr>] None None 7
       = (Inr \<lparr>rr_saleId = 1, rr_refundAmount = 10, rr_newPaymentStatus = ''refunded''\<rparr>,
          pharmacy_refunded)
   \<and> processRefund pharmacy_refunded 1 [\<lparr>saleItemId = 1, quantityToRefund = 5\<rparr>] None None 7
       = (Inl SaleNotRefundable, pharmacy_refunded)
   \<and> map i_quantity_on_hand (inventory pharmacy_refunded) = [10, 10]"
proof (intro conjI)
  show "fst (createSale ''completed'' pharmacy (sale_of [5]))
     = Inr \<lparr>sr_id = 1, sr_subtotal = 10, sr_taxAmount = 0, sr_totalAmount = 10, sr_itemCount = 1\<rparr>"
    by (simp add: ex_defs sale_defs)
  show "map si_quantity (sale_items pharmacy_sold) = [5]"
    by (simp add: pharmacy_sold_eq)
  show "processRefund pharmacy_sold 1 [\<lparr>saleItemId = 1, quantityToRefund = 5\<rparr>] None None 7
       = (Inr \<lparr>rr_saleId = 1, rr_refundAmount = 10, rr_newPaymentStatus = ''refunded''\<rparr>,
          pharmacy_refunded)"
    by (rule first_refund)
  show "processRefund pharmacy_refunded 1 [\<lparr>saleItemId = 1, quantityToRefund = 5\<rparr>] None None 7
       = (Inl SaleNotRefundable, pharmacy_refunded)"
    by (simp add: pharmacy_refunded_eq processRefund_def processRefund_callback_def
        saleQuery_def transaction_def)
  show "map i_quantity_on_hand (inventory pharmacy_refunded) = [10, 10]"
    by (simp add: pharmacy_refunded_eq ex_defs)
qed


end
